theory Spec2Isabelle
  imports Complex_Main
begin

section \<open>Embedding conventions\<close>

text \<open>
  The development embeds the effectiveness-NTU part of \<^verbatim>\<open>ht/hx.py\<close>.

  \<^item> Python floats are modelled as the real numbers: rounding, overflow, infinities and
    NaN are outside the model. Every operation of the source that raises on a real
    argument is a branch of the model: float division by zero, \<^verbatim>\<open>log\<close> of a
    non-positive number, a negative base raised to a fractional power.
  \<^item> Every exception is a value of the type \<open>error\<close>; a function that may raise
    returns \<open>error + 'a\<close>, with \<open>Inl\<close> for the exception.
  \<^item> An expression with several float divisions raises the same
    \<^verbatim>\<open>ZeroDivisionError\<close> whichever divisor is zero, so such an expression is
    modelled by one test of all its divisors followed by the expression itself.
    Where exceptions of different kinds can arise in one statement, the tests
    follow the evaluation order of Python (left operand first).
  \<^item> Python 3 semantics are used throughout (\<^verbatim>\<open>/\<close> is true division; a negative
    float raised to a non-integral power is a complex number).
  \<^item> Where a double saturates (\<^verbatim>\<open>1. - exp(-40.)\<close> is \<^verbatim>\<open>1.0\<close>) or overflows
    (\<^verbatim>\<open>exp(1000.)\<close> raises \<^verbatim>\<open>OverflowError\<close>) the code takes a branch that the real
    numbers do not have. A theorem that gives the value of a call over a range of
    arguments therefore bounds the arguments, so that the call stays away from these
    effects and the real value is the value of the code up to rounding.
\<close>

subsection \<open>Exceptions\<close>

text \<open>
  The source raises the plain \<^verbatim>\<open>Exception\<close> with a message; the constructors
  below name the messages.

  \<^item> \<open>InvalidInput\<close>: 'Heat capacity rate must be less than 1 by definition.'
  \<^item> \<open>UnknownConfiguration\<close>: 'Input heat exchanger type not recognized'
  \<^item> \<open>EffectivenessUnattainable m\<close>: 'The specified effectiveness is not physically
    possible for this configuration; the maximum effectiveness possible is m.'
  \<^item> \<open>RootBracketFailure\<close>: the root finder found no sign change over its bracket.
  \<^item> \<open>InsufficientInput\<close>: 'One set of (Tci, Thi), (Tci, Tho), (Tco, Thi), or
    (Tco, Tho) are required along with UA.' and 'At least one temperature is required
    to be specified on the cold side.'
  \<^item> \<open>InconsistentInput\<close>: 'The specified heat capacities, mass flows, and
    temperatures are inconsistent'
  \<^item> \<open>UnsupportedPassCount\<close>: 'Supported numbers of tube passes are 1, 2, and 4.' and
    'Number of tube passes exceeds available correlation data'
  \<^item> the remaining constructors are the exceptions of the Python run time;
    \<open>NoneReturned\<close> stands for a function falling off its end.
\<close>

datatype error =
    InvalidInput
  | UnknownConfiguration
  | EffectivenessUnattainable real
  | RootBracketFailure
  | InsufficientInput
  | InconsistentInput
  | UnsupportedPassCount
  | ZeroDivisionError
  | ValueError
  | TypeError
  | UnboundLocalError
  | RuntimeError
  | NoneReturned

subsection \<open>Strings: substring test, split and integer parsing\<close>

fun startswith :: "string \<Rightarrow> string \<Rightarrow> bool" where
  "startswith s [] = True"
| "startswith [] (p # ps) = False"
| "startswith (c # cs) (p # ps) = (c = p \<and> startswith cs ps)"

text \<open>The text before the first occurrence of a (non-empty) separator, if it occurs.\<close>

fun before_sep :: "string \<Rightarrow> string \<Rightarrow> string option" where
  "before_sep sep [] = None"
| "before_sep sep (c # cs) =
    (if startswith (c # cs) sep then Some []
     else (case before_sep sep cs of None \<Rightarrow> None | Some p \<Rightarrow> Some (c # p)))"

text \<open>\<^verbatim>\<open>sep in s\<close> and \<^verbatim>\<open>s.split(sep)[0]\<close>.\<close>

definition contains :: "string \<Rightarrow> string \<Rightarrow> bool" where
  "contains sep s = (case before_sep sep s of None \<Rightarrow> False | Some p \<Rightarrow> True)"

definition split_head :: "string \<Rightarrow> string \<Rightarrow> string" where
  "split_head sep s = (case before_sep sep s of None \<Rightarrow> s | Some p \<Rightarrow> p)"

text \<open>
  \<^verbatim>\<open>int(s)\<close> on a string: surrounding ASCII white space is dropped, one sign is
  allowed, and at least one decimal digit must follow. Digit-group underscores and
  non-ASCII digits are not modelled: such strings are a \<open>ValueError\<close> here.
\<close>

definition is_space :: "char \<Rightarrow> bool" where
  "is_space c = (c = CHR '' '' \<or> c = CHR 0x09 \<or> c = CHR 0x0A \<or> c = CHR 0x0B
                 \<or> c = CHR 0x0C \<or> c = CHR 0x0D)"

definition strip :: "string \<Rightarrow> string" where
  "strip s = rev (dropWhile is_space (rev (dropWhile is_space s)))"

fun position :: "char \<Rightarrow> string \<Rightarrow> nat option" where
  "position c [] = None"
| "position c (d # ds) =
    (if c = d then Some 0 else (case position c ds of None \<Rightarrow> None | Some i \<Rightarrow> Some (Suc i)))"

definition digit_of :: "char \<Rightarrow> nat option" where
  "digit_of c = position c ''0123456789''"

fun digits_value :: "string \<Rightarrow> nat \<Rightarrow> nat option" where
  "digits_value [] acc = Some acc"
| "digits_value (c # cs) acc =
    (case digit_of c of None \<Rightarrow> None | Some d \<Rightarrow> digits_value cs (10 * acc + d))"

definition unsigned_value :: "string \<Rightarrow> nat option" where
  "unsigned_value ds = (if ds = [] then None else digits_value ds 0)"

definition py_int :: "string \<Rightarrow> error + int" where
  "py_int s =
    (case strip s of
       [] \<Rightarrow> Inl ValueError
     | c # cs \<Rightarrow>
         if c = CHR ''-'' then
           (case unsigned_value cs of None \<Rightarrow> Inl ValueError | Some n \<Rightarrow> Inr (- int n))
         else if c = CHR ''+'' then
           (case unsigned_value cs of None \<Rightarrow> Inl ValueError | Some n \<Rightarrow> Inr (int n))
         else
           (case unsigned_value (c # cs) of None \<Rightarrow> Inl ValueError | Some n \<Rightarrow> Inr (int n)))"

text \<open>
  \<^verbatim>\<open>str_shells = subtype.split('S&T')[0]\<close>,
  \<^verbatim>\<open>shells = int(str_shells) if str_shells else 1\<close>.
\<close>

definition shells_of :: "string \<Rightarrow> error + int" where
  "shells_of subtype =
    (let str_shells = split_head ''S&T'' subtype
     in if str_shells = [] then Inr 1 else py_int str_shells)"

section \<open>Effectiveness from NTU\<close>

text \<open>
  The shell-and-tube branch of \<^verbatim>\<open>effectiveness_from_NTU\<close>. \<^verbatim>\<open>(1. + Cr**2)**.5\<close>
  has a base of at least 1 and is the square root.
\<close>

definition effectiveness_shell_tube :: "real \<Rightarrow> real \<Rightarrow> int \<Rightarrow> error + real" where
  "effectiveness_shell_tube NTU0 Cr shells =
    (if shells = 0 then Inl ZeroDivisionError
     else
       let NTU = NTU0 / real_of_int shells;
           top = 1 + exp (- NTU * sqrt (1 + Cr\<^sup>2));
           bottom = 1 - exp (- NTU * sqrt (1 + Cr\<^sup>2))
       in if bottom = 0 \<or> 1 + Cr + sqrt (1 + Cr\<^sup>2) * top / bottom = 0
          then Inl ZeroDivisionError
          else
            let effectiveness = 2 / (1 + Cr + sqrt (1 + Cr\<^sup>2) * top / bottom)
            in if shells > 1 then
                 (if 1 - effectiveness = 0 then Inl ZeroDivisionError
                  else
                    let term = ((1 - effectiveness * Cr) / (1 - effectiveness)) ^ nat shells
                    in if term - Cr = 0 then Inl ZeroDivisionError
                       else Inr ((term - 1) / (term - Cr)))
               else Inr effectiveness)"

definition effectiveness_from_NTU :: "real \<Rightarrow> real \<Rightarrow> string \<Rightarrow> error + real" where
  "effectiveness_from_NTU NTU Cr subtype =
    (if Cr > 1 then Inl InvalidInput
     else if subtype = ''counterflow'' then
       (if Cr < 1 then
          (if 1 - Cr * exp (- NTU * (1 - Cr)) = 0 then Inl ZeroDivisionError
           else Inr ((1 - exp (- NTU * (1 - Cr))) / (1 - Cr * exp (- NTU * (1 - Cr)))))
        else if Cr = 1 then
          (if 1 + NTU = 0 then Inl ZeroDivisionError else Inr (NTU / (1 + NTU)))
        else Inl NoneReturned)
     else if subtype = ''parallel'' then
       (if 1 + Cr = 0 then Inl ZeroDivisionError
        else Inr ((1 - exp (- NTU * (1 + Cr))) / (1 + Cr)))
     else if contains ''S&T'' subtype then
       (case shells_of subtype of
          Inl e \<Rightarrow> Inl e
        | Inr shells \<Rightarrow> effectiveness_shell_tube NTU Cr shells)
     else if subtype = ''crossflow'' then
       (if Cr = 0 then Inl ZeroDivisionError
        else if NTU < 0 then Inl TypeError
        else Inr (1 - exp (1 / Cr * NTU powr 0.22 * (exp (- Cr * NTU powr 0.78) - 1))))
     else if subtype = ''crossflow, mixed Cmin'' then
       (if Cr = 0 then Inl ZeroDivisionError
        else Inr (1 - exp (- (1 / Cr) * (1 - exp (- Cr * NTU)))))
     else if subtype = ''crossflow, mixed Cmax'' then
       (if Cr = 0 then Inl ZeroDivisionError
        else Inr ((1 / Cr) * (1 - exp (- Cr * (1 - exp (- NTU))))))
     else if subtype = ''boiler'' \<or> subtype = ''condenser'' then
       Inr (1 - exp (- NTU))
     else Inl UnknownConfiguration)"

section \<open>NTU from effectiveness\<close>

text \<open>
  The root finder \<^verbatim>\<open>scipy.optimize.ridder\<close> is a library outside the repository.
  The model takes it as a parameter \<open>ridder f a b\<close> whose outcome is a root, the
  failure to find a sign change of \<open>f\<close> over \<open>[a, b]\<close>, or the failure to converge.
\<close>

datatype ridder_outcome = Root real | NoSignChange | NotConverged

type_synonym root_finder = "(real \<Rightarrow> real) \<Rightarrow> real \<Rightarrow> real \<Rightarrow> ridder_outcome"

text \<open>
  The residual \<^verbatim>\<open>to_solve\<close> of the unmixed crossflow branch. The root finder calls it
  on positive \<open>NTU\<close> only, where its one exception is the division \<^verbatim>\<open>1./Cr\<close>.
\<close>

definition to_solve :: "real \<Rightarrow> real \<Rightarrow> real \<Rightarrow> real" where
  "to_solve NTU Cr effectiveness =
    (1 - exp (1 / Cr * NTU powr 0.22 * (exp (- Cr * NTU powr 0.78) - 1))) - effectiveness"

text \<open>
  \<^verbatim>\<open>base**(1/shells)\<close> for an integer \<open>shells\<close> other than 0. A negative base with
  an exponent that is not integral gives a complex number, on which the later
  comparison \<^verbatim>\<open>(E - 1.)/(E + 1.) <= 0\<close> raises \<open>TypeError\<close>.
\<close>

definition shell_root :: "real \<Rightarrow> int \<Rightarrow> error + real" where
  "shell_root base shells =
    (if base > 0 then Inr (base powr (1 / real_of_int shells))
     else if base = 0 then (if shells > 0 then Inr 0 else Inl ZeroDivisionError)
     else if shells = 1 then Inr base
     else if shells = - 1 then Inr (1 / base)
     else Inl TypeError)"

text \<open>The maximum reported by the shell-and-tube branch (\<^verbatim>\<open>max_effectiveness\<close>).\<close>

definition shell_ratio :: "real \<Rightarrow> real" where
  "shell_ratio Cr = (- Cr + sqrt (Cr\<^sup>2 + 1) + 1) / (Cr + sqrt (Cr\<^sup>2 + 1) - 1)"

definition max_effectiveness :: "real \<Rightarrow> int \<Rightarrow> error + real" where
  "max_effectiveness Cr shells =
    (if Cr + sqrt (Cr\<^sup>2 + 1) - 1 = 0
        \<or> (shell_ratio Cr = 0 \<and> shells < 0)
        \<or> Cr - shell_ratio Cr powi shells = 0
     then Inl ZeroDivisionError
     else Inr ((- (shell_ratio Cr powi shells) + 1) / (Cr - shell_ratio Cr powi shells)))"

definition NTU_shell_tube :: "real \<Rightarrow> real \<Rightarrow> int \<Rightarrow> error + real" where
  "NTU_shell_tube effectiveness Cr shells =
    (if shells = 0 \<or> effectiveness - 1 = 0 then Inl ZeroDivisionError
     else
       (case shell_root ((effectiveness * Cr - 1) / (effectiveness - 1)) shells of
          Inl e \<Rightarrow> Inl e
        | Inr F \<Rightarrow>
            if F - Cr = 0 then Inl ZeroDivisionError
            else
              let e1 = (F - 1) / (F - Cr)
              in if e1 = 0 then Inl ZeroDivisionError
                 else
                   let E = (2 / e1 - (1 + Cr)) / sqrt (1 + Cr\<^sup>2)
                   in if E + 1 = 0 then Inl ZeroDivisionError
                      else if (E - 1) / (E + 1) \<le> 0 then
                        (case max_effectiveness Cr shells of
                           Inl e \<Rightarrow> Inl e
                         | Inr m \<Rightarrow> Inl (EffectivenessUnattainable m))
                      else
                        let NTU = - ((1 + Cr\<^sup>2) powr (- 0.5)) * ln ((E - 1) / (E + 1))
                        in Inr (real_of_int shells * NTU)))"

definition NTU_from_effectiveness :: "root_finder \<Rightarrow> real \<Rightarrow> real \<Rightarrow> string \<Rightarrow> error + real" where
  "NTU_from_effectiveness ridder effectiveness Cr subtype =
    (if Cr > 1 then Inl InvalidInput
     else if subtype = ''counterflow'' then
       (if Cr < 1 then
          (if effectiveness * Cr - 1 = 0 then Inl ZeroDivisionError
           else if (effectiveness - 1) / (effectiveness * Cr - 1) \<le> 0 then Inl ValueError
           else Inr (1 / (Cr - 1) * ln ((effectiveness - 1) / (effectiveness * Cr - 1))))
        else if Cr = 1 then
          (if 1 - effectiveness = 0 then Inl ZeroDivisionError
           else Inr (effectiveness / (1 - effectiveness)))
        else Inl NoneReturned)
     else if subtype = ''parallel'' then
       (if effectiveness * (1 + Cr) > 1 then Inl (EffectivenessUnattainable (1 / (Cr + 1)))
        else if 1 - effectiveness * (1 + Cr) \<le> 0 then Inl ValueError
        else if 1 + Cr = 0 then Inl ZeroDivisionError
        else Inr (- ln (1 - effectiveness * (1 + Cr)) / (1 + Cr)))
     else if contains ''S&T'' subtype then
       (case shells_of subtype of
          Inl e \<Rightarrow> Inl e
        | Inr shells \<Rightarrow> NTU_shell_tube effectiveness Cr shells)
     else if subtype = ''crossflow'' then
       (if Cr = 0 then Inl ZeroDivisionError
        else
          (case ridder (\<lambda>NTU. to_solve NTU Cr effectiveness) (1 / 10 ^ 7) (10 ^ 5) of
             Root x \<Rightarrow> Inr x
           | NoSignChange \<Rightarrow> Inl RootBracketFailure
           | NotConverged \<Rightarrow> Inl RuntimeError))
     else if subtype = ''crossflow, mixed Cmin'' then
       (if 1 - effectiveness \<le> 0 then Inl ValueError
        else if Cr * ln (1 - effectiveness) < - 1 then
          Inl (EffectivenessUnattainable (1 - exp (- 1 / Cr)))
        else if Cr = 0 then Inl ZeroDivisionError
        else if Cr * ln (1 - effectiveness) + 1 \<le> 0 then Inl ValueError
        else Inr (- 1 / Cr * ln (Cr * ln (1 - effectiveness) + 1)))
     else if subtype = ''crossflow, mixed Cmax'' then
       (if Cr = 0 then Inl ZeroDivisionError
        else if 1 - effectiveness * Cr \<le> 0 then Inl ValueError
        else if 1 / Cr * ln (1 - effectiveness * Cr) < - 1 then
          Inl (EffectivenessUnattainable ((exp Cr - 1) * exp (- Cr) / Cr))
        else if 1 + 1 / Cr * ln (1 - effectiveness * Cr) \<le> 0 then Inl ValueError
        else Inr (- ln (1 + 1 / Cr * ln (1 - effectiveness * Cr))))
     else if subtype = ''boiler'' \<or> subtype = ''condenser'' then
       (if 1 - effectiveness \<le> 0 then Inl ValueError
        else Inr (- ln (1 - effectiveness)))
     else Inl UnknownConfiguration)"

section \<open>Capacity rates\<close>

definition calc_Cmin :: "real \<Rightarrow> real \<Rightarrow> real \<Rightarrow> real \<Rightarrow> real" where
  "calc_Cmin mh mc Cph Cpc = (let Ch = mh * Cph; Cc = mc * Cpc in min Ch Cc)"

definition calc_Cmax :: "real \<Rightarrow> real \<Rightarrow> real \<Rightarrow> real \<Rightarrow> real" where
  "calc_Cmax mh mc Cph Cpc = (let Ch = mh * Cph; Cc = mc * Cpc in max Ch Cc)"

definition calc_Cr :: "real \<Rightarrow> real \<Rightarrow> real \<Rightarrow> real \<Rightarrow> error + real" where
  "calc_Cr mh mc Cph Cpc =
    (let Ch = mh * Cph; Cc = mc * Cpc; Cmin = min Ch Cc; Cmax = max Ch Cc
     in if Cmax = 0 then Inl ZeroDivisionError else Inr (Cmin / Cmax))"

definition NTU_from_UA :: "real \<Rightarrow> real \<Rightarrow> error + real" where
  "NTU_from_UA UA Cmin = (if Cmin = 0 then Inl ZeroDivisionError else Inr (UA / Cmin))"

definition UA_from_NTU :: "real \<Rightarrow> real \<Rightarrow> real" where
  "UA_from_NTU NTU Cmin = NTU * Cmin"

section \<open>The heat-balance solver\<close>

text \<open>
  An optional argument is \<open>None\<close> or a number. \<open>truthy\<close> is the truth value Python
  gives it in a condition: \<open>None\<close> and zero are false. \<open>num\<close> reads the number; it is
  applied only where the argument has been tested not to be \<open>None\<close>.
\<close>

definition truthy :: "real option \<Rightarrow> bool" where
  "truthy t = (case t of None \<Rightarrow> False | Some v \<Rightarrow> v \<noteq> 0)"

definition num :: "real option \<Rightarrow> real" where
  "num t = (case t of None \<Rightarrow> 0 | Some v \<Rightarrow> v)"

text \<open>The dictionary returned by the solver, one field for each of its keys.\<close>

record hx_state =
  hx_Q :: real
  hx_UA :: real
  hx_Cr :: real
  hx_Cmin :: real
  hx_Cmax :: real
  hx_effectiveness :: real
  hx_NTU :: real
  hx_Thi :: real
  hx_Tho :: real
  hx_Tci :: real
  hx_Tco :: real

text \<open>
  With \<open>UA\<close> given: the test that one of the four pairs is complete,
  \<^verbatim>\<open>not any([i for i in possible_inputs if None not in i])\<close>.
\<close>

definition no_complete_pair ::
  "real option \<Rightarrow> real option \<Rightarrow> real option \<Rightarrow> real option \<Rightarrow> bool" where
  "no_complete_pair Thi Tho Tci Tco =
    (filter (\<lambda>(a, b). a \<noteq> None \<and> b \<noteq> None) [(Tci, Thi), (Tci, Tho), (Tco, Thi), (Tco, Tho)] = [])"

text \<open>
  The chain that assigns \<open>Q\<close> from the pair of temperatures; \<open>None\<close> is the result
  when no condition of the chain holds and \<open>Q\<close> stays unbound.
\<close>

definition duty_with_UA ::
  "real \<Rightarrow> real \<Rightarrow> real \<Rightarrow> real \<Rightarrow> real option \<Rightarrow> real option \<Rightarrow> real option
    \<Rightarrow> real option \<Rightarrow> error + real option" where
  "duty_with_UA eff Cmin Cc Ch Thi Tho Tci Tco =
    (if truthy Thi \<and> truthy Tci then Inr (Some (eff * Cmin * (num Thi - num Tci)))
     else if truthy Tho \<and> truthy Tco then
       (if eff * Cmin * (Cc + Ch) - Ch * Cc = 0 then Inl ZeroDivisionError
        else Inr (Some (eff * Cmin * Cc * Ch * (num Tco - num Tho)
                          / (eff * Cmin * (Cc + Ch) - Ch * Cc))))
     else if truthy Thi \<and> truthy Tco then
       (if eff * Cmin - Cc = 0 then Inl ZeroDivisionError
        else Inr (Some (Cmin * Cc * eff * (num Tco - num Thi) / (eff * Cmin - Cc))))
     else if truthy Tho \<and> truthy Tci then
       (if eff * Cmin - Ch = 0 then Inl ZeroDivisionError
        else Inr (Some (Cmin * Ch * eff * (num Tci - num Tho) / (eff * Cmin - Ch))))
     else Inr None)"

text \<open>
  The two statements that fill in the remaining temperatures, for one stream:
  \<^verbatim>\<open>if Tin and not Tout: Tout = Tin + s*Q/C  else: Tin = Tout - s*Q/C\<close>, with
  \<open>s = 1\<close> on the cold side and \<open>s = - 1\<close> on the hot side. The result is the pair
  (inlet, outlet). Reading the unbound \<open>Q\<close> raises before the division and before
  the arithmetic on a temperature that is \<open>None\<close>.
\<close>

definition remaining_pair ::
  "real \<Rightarrow> real option \<Rightarrow> real \<Rightarrow> real option \<Rightarrow> real option \<Rightarrow> error + real \<times> real" where
  "remaining_pair s Q C Tin Tout =
    (if truthy Tin \<and> \<not> truthy Tout then
       (case Q of
          None \<Rightarrow> Inl UnboundLocalError
        | Some q \<Rightarrow>
            if C = 0 then Inl ZeroDivisionError
            else Inr (num Tin, num Tin + s * (q / C)))
     else
       (case Q of
          None \<Rightarrow> Inl UnboundLocalError
        | Some q \<Rightarrow>
            if C = 0 then Inl ZeroDivisionError
            else (case Tout of
                    None \<Rightarrow> Inl TypeError
                  | Some tout \<Rightarrow> Inr (tout - s * (q / C), tout))))"

text \<open>
  Without \<open>UA\<close>: the branch that computes \<open>Q\<close> from the stream with both
  temperatures and fills in the fourth. The result is \<open>Q\<close> (\<open>None\<close> when unbound) and
  the four temperatures in the order \<open>Thi\<close>, \<open>Tho\<close>, \<open>Tci\<close>, \<open>Tco\<close>.
\<close>

definition duty_without_UA ::
  "real \<Rightarrow> real \<Rightarrow> real \<Rightarrow> real \<Rightarrow> real option \<Rightarrow> real option \<Rightarrow> real option
    \<Rightarrow> real option
    \<Rightarrow> error + real option \<times> real option \<times> real option \<times> real option \<times> real option" where
  "duty_without_UA mh mc Cph Cpc Thi Tho Tci Tco =
    (if Thi \<noteq> None \<and> Tho \<noteq> None then
       let Q = mh * Cph * (num Thi - num Tho)
       in if Tci \<noteq> None \<and> Tco = None then
            (if mc * Cpc = 0 then Inl ZeroDivisionError
             else Inr (Some Q, Thi, Tho, Tci, Some (num Tci + Q / (mc * Cpc))))
          else if Tco \<noteq> None \<and> Tci = None then
            (if mc * Cpc = 0 then Inl ZeroDivisionError
             else Inr (Some Q, Thi, Tho, Some (num Tco - Q / (mc * Cpc)), Tco))
          else if Tco \<noteq> None \<and> Tci \<noteq> None then
            (let Q2 = mc * Cpc * (num Tco - num Tci)
             in if Q = 0 then Inl ZeroDivisionError
                else if \<bar>(Q - Q2) / Q\<bar> > 0.01 then Inl InconsistentInput
                else Inr (Some Q, Thi, Tho, Tci, Tco))
          else Inl InsufficientInput
     else if Tci \<noteq> None \<and> Tco \<noteq> None then
       let Q = mc * Cpc * (num Tco - num Tci)
       in if Thi \<noteq> None \<and> Tho = None then
            (if mh * Cph = 0 then Inl ZeroDivisionError
             else Inr (Some Q, Thi, Some (num Thi - Q / (mh * Cph)), Tci, Tco))
          else if Tho \<noteq> None \<and> Thi = None then
            (if mh * Cph = 0 then Inl ZeroDivisionError
             else Inr (Some Q, Some (num Tho + Q / (mh * Cph)), Tho, Tci, Tco))
          else Inl InsufficientInput
     else Inr (None, Thi, Tho, Tci, Tco))"

text \<open>
  \<^verbatim>\<open>effectiveness = Q/Cmin/(Thi-Tci)\<close> and the two calls after it.
\<close>

definition solve_UA ::
  "root_finder \<Rightarrow> string \<Rightarrow> real \<Rightarrow> real \<Rightarrow> real
    \<Rightarrow> real option \<times> real option \<times> real option \<times> real option \<times> real option
    \<Rightarrow> error + hx_state" where
  "solve_UA ridder subtype Cmin Cmax Cr st =
    (case st of (Qo, Thi, Tho, Tci, Tco) \<Rightarrow>
       (case Qo of
          None \<Rightarrow> Inl UnboundLocalError
        | Some Q \<Rightarrow>
            if Cmin = 0 then Inl ZeroDivisionError
            else if Thi = None \<or> Tci = None then Inl TypeError
            else if num Thi - num Tci = 0 then Inl ZeroDivisionError
            else
              let effectiveness = Q / Cmin / (num Thi - num Tci)
              in (case NTU_from_effectiveness ridder effectiveness Cr subtype of
                    Inl e \<Rightarrow> Inl e
                  | Inr NTU \<Rightarrow>
                      Inr \<lparr> hx_Q = Q, hx_UA = UA_from_NTU NTU Cmin, hx_Cr = Cr,
                            hx_Cmin = Cmin, hx_Cmax = Cmax,
                            hx_effectiveness = effectiveness, hx_NTU = NTU,
                            hx_Thi = num Thi, hx_Tho = num Tho,
                            hx_Tci = num Tci, hx_Tco = num Tco \<rparr>)))"

text \<open>The branch \<^verbatim>\<open>if UA is not None\<close>.\<close>

definition solve_temperatures ::
  "string \<Rightarrow> real \<Rightarrow> real \<Rightarrow> real \<Rightarrow> real \<Rightarrow> real \<Rightarrow> real
    \<Rightarrow> real option \<Rightarrow> real option \<Rightarrow> real option \<Rightarrow> real option \<Rightarrow> error + hx_state" where
  "solve_temperatures subtype Cmin Cmax Cr Cc Ch UA Thi Tho Tci Tco =
    (case NTU_from_UA UA Cmin of
       Inl e \<Rightarrow> Inl e
     | Inr NTU \<Rightarrow>
         (case effectiveness_from_NTU NTU Cr subtype of
            Inl e \<Rightarrow> Inl e
          | Inr eff \<Rightarrow>
              if no_complete_pair Thi Tho Tci Tco then Inl InsufficientInput
              else
                (case duty_with_UA eff Cmin Cc Ch Thi Tho Tci Tco of
                   Inl e \<Rightarrow> Inl e
                 | Inr Qo \<Rightarrow>
                     (case remaining_pair 1 Qo Cc Tci Tco of
                        Inl e \<Rightarrow> Inl e
                      | Inr (Tci', Tco') \<Rightarrow>
                          (case remaining_pair (- 1) Qo Ch Thi Tho of
                             Inl e \<Rightarrow> Inl e
                           | Inr (Thi', Tho') \<Rightarrow>
                               Inr \<lparr> hx_Q = num Qo, hx_UA = UA, hx_Cr = Cr,
                                     hx_Cmin = Cmin, hx_Cmax = Cmax,
                                     hx_effectiveness = eff, hx_NTU = NTU,
                                     hx_Thi = Thi', hx_Tho = Tho',
                                     hx_Tci = Tci', hx_Tco = Tco' \<rparr>)))))"

definition effectiveness_NTU_method ::
  "root_finder \<Rightarrow> real \<Rightarrow> real \<Rightarrow> real \<Rightarrow> real \<Rightarrow> string
    \<Rightarrow> real option \<Rightarrow> real option \<Rightarrow> real option \<Rightarrow> real option \<Rightarrow> real option
    \<Rightarrow> error + hx_state" where
  "effectiveness_NTU_method ridder mh mc Cph Cpc subtype Thi Tho Tci Tco UA =
    (let Cmin = calc_Cmin mh mc Cph Cpc;
         Cmax = calc_Cmax mh mc Cph Cpc
     in (case calc_Cr mh mc Cph Cpc of
           Inl e \<Rightarrow> Inl e
         | Inr Cr \<Rightarrow>
             let Cc = mc * Cpc; Ch = mh * Cph
             in (case UA of
                   Some ua \<Rightarrow> solve_temperatures subtype Cmin Cmax Cr Cc Ch ua Thi Tho Tci Tco
                 | None \<Rightarrow>
                     (case duty_without_UA mh mc Cph Cpc Thi Tho Tci Tco of
                        Inl e \<Rightarrow> Inl e
                      | Inr st \<Rightarrow> solve_UA ridder subtype Cmin Cmax Cr st))))"

section \<open>Temperature effectiveness of TEMA J and TEMA H exchangers\<close>



subsection \<open>The closed forms as documented\<close>























section \<open>The round trip\<close>

text \<open>
  The expression
  \<^verbatim>\<open>NTU_from_effectiveness(effectiveness_from_NTU(NTU, Cr, subtype), Cr, subtype)\<close>:
  the inner call is evaluated first and its exception propagates.
\<close>

definition NTU_round_trip :: "root_finder \<Rightarrow> real \<Rightarrow> real \<Rightarrow> string \<Rightarrow> error + real" where
  "NTU_round_trip ridder NTU Cr subtype =
    (case effectiveness_from_NTU NTU Cr subtype of
       Inl e \<Rightarrow> Inl e
     | Inr effectiveness \<Rightarrow> NTU_from_effectiveness ridder effectiveness Cr subtype)"

section \<open>Evaluation lemmas\<close>

lemma contains_fixed_names [simp]:
  "\<not> contains ''S&T'' ''counterflow''"
  "\<not> contains ''S&T'' ''parallel''"
  "\<not> contains ''S&T'' ''crossflow''"
  "\<not> contains ''S&T'' ''crossflow, mixed Cmin''"
  "\<not> contains ''S&T'' ''crossflow, mixed Cmax''"
  "\<not> contains ''S&T'' ''boiler''"
  "\<not> contains ''S&T'' ''condenser''"
  by (simp_all add: contains_def)

lemma calc_Cr_example: "calc_Cr 5.2 1.45 1860 1900 = Inr (2755 / 9672)"
  by (simp add: calc_Cr_def Let_def)

lemma calc_Cmin_example: "calc_Cmin 5.2 1.45 1860 1900 \<noteq> 0"
  by (simp add: calc_Cmin_def Let_def)

section \<open>The guard on the capacity ratio\<close>

text \<open>
  Claim C4. For every \<open>Cr > 1\<close>, \<open>effectiveness_from_NTU\<close> and \<open>NTU_from_effectiveness\<close>
  both fail with \<open>InvalidInput\<close>, whatever the NTU, the effectiveness and the
  configuration tag (recognised or not): the guard stands before the dispatch.
\<close>

theorem C4_Cr_guard:
  "Cr > 1 \<Longrightarrow>
     effectiveness_from_NTU NTU Cr subtype = Inl InvalidInput
     \<and> NTU_from_effectiveness ridder effectiveness Cr subtype = Inl InvalidInput"
  by (simp add: effectiveness_from_NTU_def NTU_from_effectiveness_def)

theorem C4_Cr_guard_witness:
  "(1::real) < 2
   \<and> effectiveness_from_NTU 5 2 ''no such exchanger'' = Inl InvalidInput
   \<and> NTU_from_effectiveness (\<lambda>f a b. NoSignChange) 0.5 2 ''no such exchanger''
       = Inl InvalidInput"
  using C4_Cr_guard [where Cr = 2 and NTU = 5 and subtype = "''no such exchanger''"
      and ridder = "\<lambda>f a b. NoSignChange" and effectiveness = "0.5"]
  by simp

section \<open>The solver without UA when no stream has both temperatures\<close>

lemma duty_without_UA_unbound:
  assumes "\<not> (Thi \<noteq> None \<and> Tho \<noteq> None)" "\<not> (Tci \<noteq> None \<and> Tco \<noteq> None)"
  shows "duty_without_UA mh mc Cph Cpc Thi Tho Tci Tco = Inr (None, Thi, Tho, Tci, Tco)"
  using assms unfolding duty_without_UA_def by auto

lemma solve_UA_unbound:
  "solve_UA ridder subtype Cmin Cmax Cr (None, Thi, Tho, Tci, Tco) = Inl UnboundLocalError"
  by (simp add: solve_UA_def)

text \<open>
  Claim C8. The claim: called without \<open>UA\<close>, with neither the hot pair \<open>(Thi, Tho)\<close>
  nor the cold pair \<open>(Tci, Tco)\<close> complete, the solver fails with \<open>InsufficientInput\<close>.
  The code does not: neither branch of the chain is taken, nothing is raised
  there, and the statement \<^verbatim>\<open>effectiveness = Q/Cmin/(Thi-Tci)\<close> reads the variable
  \<open>Q\<close> that was never assigned. On every such input (with capacity rates that give a
  ratio) the call ends in \<open>UnboundLocalError\<close>.
\<close>

theorem C8_no_side_complete_unbound:
  assumes "\<not> (Thi \<noteq> None \<and> Tho \<noteq> None)" "\<not> (Tci \<noteq> None \<and> Tco \<noteq> None)"
     and "calc_Cr mh mc Cph Cpc = Inr Cr"
  shows "effectiveness_NTU_method ridder mh mc Cph Cpc subtype Thi Tho Tci Tco None
    = Inl UnboundLocalError"
  unfolding effectiveness_NTU_method_def
  by (simp add: assms(3) duty_without_UA_unbound[OF assms(1,2)] solve_UA_unbound Let_def)

theorem C8_no_side_complete_unbound_witness:
  "\<not> (Some (130::real) \<noteq> None \<and> (None::real option) \<noteq> None)
   \<and> \<not> ((None::real option) \<noteq> None \<and> Some (85::real) \<noteq> None)
   \<and> calc_Cr 5.2 1.45 1860 1900 = Inr (2755 / 9672)
   \<and> effectiveness_NTU_method (\<lambda>f a b. NoSignChange) 5.2 1.45 1860 1900 ''counterflow''
        (Some 130) None None (Some 85) None = Inl UnboundLocalError"
  using C8_no_side_complete_unbound [where Thi = "Some 130" and Tho = None and Tci = None
      and Tco = "Some 85" and ridder = "\<lambda>f a b. NoSignChange" and subtype = "''counterflow''",
      OF _ _ calc_Cr_example] calc_Cr_example
  by simp

section \<open>The solver with UA and a temperature equal to zero\<close>

lemma duty_with_UA_zero_Tci:
  "duty_with_UA eff Cmin Cc Ch Thi None (Some 0) None = Inr None"
  by (simp add: duty_with_UA_def truthy_def)

lemma duty_with_UA_zero_Thi:
  "duty_with_UA eff Cmin Cc Ch (Some 0) None Tci None = Inr None"
  by (simp add: duty_with_UA_def truthy_def)

lemma remaining_pair_unbound: "remaining_pair s None C Tin Tout = Inl UnboundLocalError"
  by (simp add: remaining_pair_def)

lemma effectiveness_boiler_example:
  "effectiveness_from_NTU (3041.75 / calc_Cmin 5.2 1.45 1860 1900) (2755 / 9672) ''boiler''
    = Inr (1 - exp (- (3041.75 / calc_Cmin 5.2 1.45 1860 1900)))"
  by (simp add: effectiveness_from_NTU_def)

text \<open>
  Claim C10. With \<open>UA\<close> given, the chain that selects the formula of \<open>Q\<close> tests the
  temperatures for truth, not for being \<open>None\<close>. When the two inlet temperatures
  are the ones supplied and one of them is 0 (the pair is complete, so the
  requirement of this mode is met), no branch assigns \<open>Q\<close>, and the next statement
  reads it: the call ends in \<open>UnboundLocalError\<close> instead of returning the state.
\<close>

theorem C10_zero_temperature_unbound:
  assumes "calc_Cr mh mc Cph Cpc = Inr Cr"
      and "calc_Cmin mh mc Cph Cpc \<noteq> 0"
      and "effectiveness_from_NTU (ua / calc_Cmin mh mc Cph Cpc) Cr subtype = Inr eff"
  shows "effectiveness_NTU_method ridder mh mc Cph Cpc subtype
           (Some thi) None (Some 0) None (Some ua) = Inl UnboundLocalError
         \<and> effectiveness_NTU_method ridder mh mc Cph Cpc subtype
           (Some 0) None (Some tci) None (Some ua) = Inl UnboundLocalError"
  unfolding effectiveness_NTU_method_def solve_temperatures_def
  by (simp add: assms NTU_from_UA_def no_complete_pair_def duty_with_UA_zero_Tci
      duty_with_UA_zero_Thi remaining_pair_unbound Let_def)

theorem C10_zero_temperature_unbound_witness:
  "calc_Cr 5.2 1.45 1860 1900 = Inr (2755 / 9672)
   \<and> calc_Cmin 5.2 1.45 1860 1900 \<noteq> 0
   \<and> effectiveness_NTU_method (\<lambda>f a b. NoSignChange) 5.2 1.45 1860 1900 ''boiler''
        (Some 130) None (Some 0) None (Some 3041.75) = Inl UnboundLocalError"
  using C10_zero_temperature_unbound [OF calc_Cr_example calc_Cmin_example
      effectiveness_boiler_example, of "\<lambda>f a b. NoSignChange" 130 15]
    calc_Cr_example calc_Cmin_example
  by simp

section \<open>Pass counts of the TEMA J and TEMA H correlations\<close>

























section \<open>The consistency check of the solver without UA\<close>

lemma py_int_error: "py_int s = Inl e \<Longrightarrow> e = ValueError"
  by (auto simp: py_int_def split: list.splits option.splits if_splits)

lemma shells_of_error: "shells_of s = Inl e \<Longrightarrow> e = ValueError"
  by (auto simp: shells_of_def Let_def dest: py_int_error split: if_splits)

lemma shell_root_error: "shell_root b n = Inl e \<Longrightarrow> e = ZeroDivisionError \<or> e = TypeError"
  by (auto simp: shell_root_def split: if_splits)

lemma max_effectiveness_error: "max_effectiveness Cr n = Inl e \<Longrightarrow> e = ZeroDivisionError"
  by (auto simp: max_effectiveness_def split: if_splits)

lemma NTU_shell_tube_consistent:
  "NTU_shell_tube eff Cr n \<noteq> Inl InconsistentInput"
  by (auto simp: NTU_shell_tube_def Let_def dest: shell_root_error max_effectiveness_error
      split: if_splits sum.splits)

lemma NTU_from_effectiveness_consistent:
  "NTU_from_effectiveness ridder eff Cr subtype \<noteq> Inl InconsistentInput"
  unfolding NTU_from_effectiveness_def
  using NTU_shell_tube_consistent
  by (auto dest: shells_of_error split: if_splits sum.splits ridder_outcome.splits)

lemma solve_UA_consistent:
  "solve_UA ridder subtype Cmin Cmax Cr st \<noteq> Inl InconsistentInput"
  unfolding solve_UA_def
  using NTU_from_effectiveness_consistent
  by (auto simp: Let_def split: prod.splits option.splits sum.splits if_splits)

lemma duty_without_UA_four:
  "duty_without_UA mh mc Cph Cpc (Some thi) (Some tho) (Some tci) (Some tco) =
    (if mh * Cph * (thi - tho) = 0 then Inl ZeroDivisionError
     else if \<bar>(mh * Cph * (thi - tho) - mc * Cpc * (tco - tci)) / (mh * Cph * (thi - tho))\<bar> > 0.01
       then Inl InconsistentInput
     else Inr (Some (mh * Cph * (thi - tho)), Some thi, Some tho, Some tci, Some tco))"
  by (simp add: duty_without_UA_def num_def Let_def)

text \<open>
  Claim C7, as amended. Called without \<open>UA\<close> and with all four temperatures (and
  capacity rates that give a ratio), the solver computes \<open>Q = Ch * (Thi - Tho)\<close> and
  \<open>Q2 = Cc * (Tco - Tci)\<close>. When \<open>Q\<close> is not zero it fails with \<open>InconsistentInput\<close>
  exactly when \<open>\<bar>Q - Q2\<bar> / \<bar>Q\<bar>\<close> exceeds 1 per cent, and otherwise goes on with the
  hot-side \<open>Q\<close> and the four temperatures as given. When \<open>Q\<close> is zero the check
  itself divides by zero and the call fails with \<open>ZeroDivisionError\<close>.
\<close>

theorem C7_consistency_check:
  assumes "calc_Cr mh mc Cph Cpc = Inr Cr"
      and "Q = mh * Cph * (thi - tho)" and "Q2 = mc * Cpc * (tco - tci)"
  shows "effectiveness_NTU_method ridder mh mc Cph Cpc subtype
            (Some thi) (Some tho) (Some tci) (Some tco) None
          = (if Q = 0 then Inl ZeroDivisionError
             else if \<bar>Q - Q2\<bar> / \<bar>Q\<bar> > 0.01 then Inl InconsistentInput
             else solve_UA ridder subtype (calc_Cmin mh mc Cph Cpc) (calc_Cmax mh mc Cph Cpc) Cr
                    (Some Q, Some thi, Some tho, Some tci, Some tco))
         \<and> (Q \<noteq> 0 \<longrightarrow>
              (effectiveness_NTU_method ridder mh mc Cph Cpc subtype
                 (Some thi) (Some tho) (Some tci) (Some tco) None = Inl InconsistentInput)
              = (\<bar>Q - Q2\<bar> / \<bar>Q\<bar> > 0.01))"
proof -
  have eq: "effectiveness_NTU_method ridder mh mc Cph Cpc subtype
            (Some thi) (Some tho) (Some tci) (Some tco) None
          = (if Q = 0 then Inl ZeroDivisionError
             else if \<bar>Q - Q2\<bar> / \<bar>Q\<bar> > 0.01 then Inl InconsistentInput
             else solve_UA ridder subtype (calc_Cmin mh mc Cph Cpc) (calc_Cmax mh mc Cph Cpc) Cr
                    (Some Q, Some thi, Some tho, Some tci, Some tco))"
    unfolding effectiveness_NTU_method_def duty_without_UA_four
    by (simp add: assms Let_def abs_divide del: abs_mult)
  have "(effectiveness_NTU_method ridder mh mc Cph Cpc subtype
            (Some thi) (Some tho) (Some tci) (Some tco) None = Inl InconsistentInput)
          = (\<bar>Q - Q2\<bar> / \<bar>Q\<bar> > 0.01)" if "Q \<noteq> 0"
    unfolding eq using that solve_UA_consistent by simp
  with eq show ?thesis by blast
qed

lemma calc_Cr_unit: "calc_Cr 1 1 1 1 = Inr 1"
  by (simp add: calc_Cr_def Let_def)

theorem C7_consistency_check_witness:
  "calc_Cr 1 1 1 1 = Inr 1
   \<and> effectiveness_NTU_method (\<lambda>f a b. NoSignChange) 1 1 1 1 ''counterflow''
        (Some 110) (Some 60) (Some 10) (Some 40) None = Inl InconsistentInput
   \<and> (0.01::real) < \<bar>50 - 30\<bar> / \<bar>50\<bar>"
  using C7_consistency_check [OF calc_Cr_unit, where thi = 110 and tho = 60 and tci = 10
      and tco = 40 and Q = 50 and ?Q2.0 = 30 and ridder = "\<lambda>f a b. NoSignChange"
      and subtype = "''counterflow''"] calc_Cr_unit
  by simp

text \<open>
  The claim as stated fails where the hot stream has equal inlet and outlet
  temperatures: the hot-side duty is 0 and the cold-side duty is 40, and the call
  fails with \<open>ZeroDivisionError\<close>, not with \<open>InconsistentInput\<close>.
\<close>

theorem C7_zero_duty_counterexample:
  "effectiveness_NTU_method (\<lambda>f a b. NoSignChange) 1 1 1 1 ''counterflow''
        (Some 100) (Some 100) (Some 10) (Some 50) None = Inl ZeroDivisionError"
  by (simp add: effectiveness_NTU_method_def calc_Cr_unit duty_without_UA_four)

section \<open>The energy balance of the returned state\<close>

lemma remaining_pair_balance:
  assumes "remaining_pair s Qo C Tin Tout = Inr (a, b)"
  shows "C * (b - a) = s * num Qo"
  using assms
  by (auto simp: remaining_pair_def num_def field_simps split: if_splits option.splits)

lemma solve_temperatures_balance:
  assumes "solve_temperatures subtype Cmin Cmax Cr Cc Ch UA Thi Tho Tci Tco = Inr r"
  shows "Ch * (hx_Thi r - hx_Tho r) = hx_Q r \<and> Cc * (hx_Tco r - hx_Tci r) = hx_Q r"
proof -
  from assms obtain Qo Tci' Tco' Thi' Tho' where
    c: "remaining_pair 1 Qo Cc Tci Tco = Inr (Tci', Tco')" and
    h: "remaining_pair (- 1) Qo Ch Thi Tho = Inr (Thi', Tho')" and
    r: "hx_Q r = num Qo" "hx_Thi r = Thi'" "hx_Tho r = Tho'" "hx_Tci r = Tci'" "hx_Tco r = Tco'"
    unfolding solve_temperatures_def
    by (auto split: sum.splits if_splits prod.splits)
  from remaining_pair_balance[OF c] remaining_pair_balance[OF h] r
  show ?thesis by (simp add: algebra_simps)
qed

lemma duty_without_UA_balance:
  assumes "duty_without_UA mh mc Cph Cpc Thi Tho Tci Tco = Inr (Some Q, Thi', Tho', Tci', Tco')"
  shows "mh * Cph * (num Thi' - num Tho') = Q
    \<and> (if Thi \<noteq> None \<and> Tho \<noteq> None \<and> Tci \<noteq> None \<and> Tco \<noteq> None
        then Q \<noteq> 0 \<and> \<bar>Q - mc * Cpc * (num Tco' - num Tci')\<bar> / \<bar>Q\<bar> \<le> 0.01
        else mc * Cpc * (num Tco' - num Tci') = Q)"
  using assms unfolding duty_without_UA_def Let_def
  by (auto simp: num_def abs_divide split: if_splits)

lemma solve_UA_fields:
  assumes "solve_UA ridder subtype Cmin Cmax Cr (Qo, Thi, Tho, Tci, Tco) = Inr r"
  shows "Qo = Some (hx_Q r) \<and> hx_Thi r = num Thi \<and> hx_Tho r = num Tho
         \<and> hx_Tci r = num Tci \<and> hx_Tco r = num Tco"
  using assms unfolding solve_UA_def
  by (auto simp: Let_def split: option.splits if_splits sum.splits)

text \<open>
  Claim C3, as amended. For every state the solver returns, the hot-side balance
  \<open>Ch * (Thi - Tho) = Q\<close> holds exactly. The cold-side balance \<open>Cc * (Tco - Tci) = Q\<close>
  holds exactly as well, so that the relative imbalance is 0 and below \<open>1e-6\<close>, when
  \<open>UA\<close> is given or when at most three temperatures are supplied. When \<open>UA\<close> is
  absent and all four temperatures are supplied, the state keeps the temperatures
  as given and the relative imbalance is bounded by the 1 per cent of the
  consistency check only.
\<close>

theorem C3_energy_balance:
  assumes "effectiveness_NTU_method ridder mh mc Cph Cpc subtype Thi Tho Tci Tco UA = Inr r"
  shows "mh * Cph * (hx_Thi r - hx_Tho r) = hx_Q r
    \<and> (if UA = None \<and> Thi \<noteq> None \<and> Tho \<noteq> None \<and> Tci \<noteq> None \<and> Tco \<noteq> None
        then \<bar>mh * Cph * (hx_Thi r - hx_Tho r) - mc * Cpc * (hx_Tco r - hx_Tci r)\<bar> / \<bar>hx_Q r\<bar>
               \<le> 0.01
        else mc * Cpc * (hx_Tco r - hx_Tci r) = hx_Q r
             \<and> \<bar>mh * Cph * (hx_Thi r - hx_Tho r) - mc * Cpc * (hx_Tco r - hx_Tci r)\<bar> / \<bar>hx_Q r\<bar>
               < 1 / 10 ^ 6)"
proof (cases UA)
  case (Some ua)
  with assms obtain Cr where
    "solve_temperatures subtype (calc_Cmin mh mc Cph Cpc) (calc_Cmax mh mc Cph Cpc) Cr
       (mc * Cpc) (mh * Cph) ua Thi Tho Tci Tco = Inr r"
    unfolding effectiveness_NTU_method_def by (auto simp: Let_def split: sum.splits)
  from solve_temperatures_balance[OF this] Some show ?thesis by simp
next
  case None
  with assms obtain Cr st where
    d: "duty_without_UA mh mc Cph Cpc Thi Tho Tci Tco = Inr st" and
    s: "solve_UA ridder subtype (calc_Cmin mh mc Cph Cpc) (calc_Cmax mh mc Cph Cpc) Cr st = Inr r"
    unfolding effectiveness_NTU_method_def by (auto simp: Let_def split: sum.splits)
  obtain Qo Thi' Tho' Tci' Tco' where st: "st = (Qo, Thi', Tho', Tci', Tco')"
    by (cases st) auto
  note f = solve_UA_fields[OF s[unfolded st]]
  from d st f have "duty_without_UA mh mc Cph Cpc Thi Tho Tci Tco
      = Inr (Some (hx_Q r), Thi', Tho', Tci', Tco')" by simp
  from duty_without_UA_balance[OF this] f None show ?thesis
    by (auto split: if_splits)
qed


lemma mode_A_example:
  "effectiveness_NTU_method (\<lambda>f a b. NoSignChange) 1 1 1 1 ''counterflow''
      (Some 110) None (Some 10) None (Some 1)
    = Inr \<lparr> hx_Q = 50, hx_UA = 1, hx_Cr = 1, hx_Cmin = 1, hx_Cmax = 1,
            hx_effectiveness = 1 / 2, hx_NTU = 1,
            hx_Thi = 110, hx_Tho = 60, hx_Tci = 10, hx_Tco = 60 \<rparr>"
  by (simp add: effectiveness_NTU_method_def calc_Cr_unit calc_Cmin_def calc_Cmax_def
      solve_temperatures_def NTU_from_UA_def effectiveness_from_NTU_def no_complete_pair_def
      duty_with_UA_def remaining_pair_def truthy_def num_def)

lemma mode_B_example:
  "effectiveness_NTU_method (\<lambda>f a b. NoSignChange) 1 1 1 1 ''counterflow''
      (Some 110) (Some 60) (Some 10) (Some 59.9) None
    = Inr \<lparr> hx_Q = 50, hx_UA = 1, hx_Cr = 1, hx_Cmin = 1, hx_Cmax = 1,
            hx_effectiveness = 1 / 2, hx_NTU = 1,
            hx_Thi = 110, hx_Tho = 60, hx_Tci = 10, hx_Tco = 59.9 \<rparr>"
  by (simp add: effectiveness_NTU_method_def calc_Cr_unit calc_Cmin_def calc_Cmax_def
      duty_without_UA_def solve_UA_def NTU_from_effectiveness_def UA_from_NTU_def num_def)

theorem C3_energy_balance_witness:
  "effectiveness_NTU_method (\<lambda>f a b. NoSignChange) 1 1 1 1 ''counterflow''
      (Some 110) None (Some 10) None (Some 1)
    = Inr \<lparr> hx_Q = 50, hx_UA = 1, hx_Cr = 1, hx_Cmin = 1, hx_Cmax = 1,
            hx_effectiveness = 1 / 2, hx_NTU = 1,
            hx_Thi = 110, hx_Tho = 60, hx_Tci = 10, hx_Tco = 60 \<rparr>
   \<and> (1::real) * 1 * (110 - 60) = 50 \<and> (1::real) * 1 * (60 - 10) = 50
   \<and> effectiveness_NTU_method (\<lambda>f a b. NoSignChange) 1 1 1 1 ''counterflow''
      (Some 110) (Some 60) (Some 10) (Some 59.9) None
    = Inr \<lparr> hx_Q = 50, hx_UA = 1, hx_Cr = 1, hx_Cmin = 1, hx_Cmax = 1,
            hx_effectiveness = 1 / 2, hx_NTU = 1,
            hx_Thi = 110, hx_Tho = 60, hx_Tci = 10, hx_Tco = 59.9 \<rparr>
   \<and> \<bar>(1::real) * 1 * (110 - 60) - 1 * 1 * (59.9 - 10)\<bar> / \<bar>50\<bar> \<le> 0.01"
  using C3_energy_balance [OF mode_A_example] C3_energy_balance [OF mode_B_example]
    mode_A_example mode_B_example
  by simp

text \<open>
  The claim as stated fails without \<open>UA\<close> on four temperatures that disagree by
  0.2 per cent: the call succeeds and the returned state has that imbalance.
\<close>

theorem C3_energy_balance_counterexample:
  "effectiveness_NTU_method (\<lambda>f a b. NoSignChange) 1 1 1 1 ''counterflow''
      (Some 110) (Some 60) (Some 10) (Some 59.9) None
    = Inr \<lparr> hx_Q = 50, hx_UA = 1, hx_Cr = 1, hx_Cmin = 1, hx_Cmax = 1,
            hx_effectiveness = 1 / 2, hx_NTU = 1,
            hx_Thi = 110, hx_Tho = 60, hx_Tci = 10, hx_Tco = 59.9 \<rparr>
   \<and> \<not> (\<bar>(1 * 1) * (110 - 60) - (1 * 1) * (59.9 - 10)\<bar> / \<bar>50\<bar> < (1 / 10 ^ 6 :: real))"
  using mode_B_example by simp

section \<open>Effectiveness at zero NTU\<close>

lemma contains_not_fixed:
  assumes "contains ''S&T'' subtype"
  shows "subtype \<noteq> ''counterflow''" "subtype \<noteq> ''parallel''"
  using assms by auto

lemma effectiveness_shell_tube_zero_NTU:
  "effectiveness_shell_tube 0 Cr shells = Inl ZeroDivisionError"
  by (simp add: effectiveness_shell_tube_def)

lemma effectiveness_from_NTU_shell_tube:
  assumes "Cr \<le> 1" "contains ''S&T'' subtype" "shells_of subtype = Inr shells"
  shows "effectiveness_from_NTU NTU Cr subtype = effectiveness_shell_tube NTU Cr shells"
  using assms contains_not_fixed[OF assms(2)] by (simp add: effectiveness_from_NTU_def)

text \<open>
  Claim C5, as amended. At \<open>NTU = 0\<close> the effectiveness returned is 0 for the tags
  counterflow, boiler and condenser (any \<open>Cr \<le> 1\<close>), parallel (\<open>Cr\<close> in \<open>[0, 1]\<close>), and
  for crossflow and the two mixed crossflow tags when \<open>Cr\<close> is in \<open>(0, 1]\<close>. The three
  crossflow tags divide by \<open>Cr\<close> and fail with \<open>ZeroDivisionError\<close> at \<open>Cr = 0\<close>. Every
  shell-and-tube tag, whatever its shell count, fails with \<open>ZeroDivisionError\<close> at
  \<open>NTU = 0\<close>: the divisor \<open>1 - exp (- NTU * sqrt (1 + Cr\<^sup>2))\<close> is zero there.
\<close>

theorem C5_zero_NTU:
  "(Cr \<le> 1 \<longrightarrow>
      effectiveness_from_NTU 0 Cr ''counterflow'' = Inr 0
      \<and> effectiveness_from_NTU 0 Cr ''boiler'' = Inr 0
      \<and> effectiveness_from_NTU 0 Cr ''condenser'' = Inr 0)
   \<and> (0 \<le> Cr \<and> Cr \<le> 1 \<longrightarrow> effectiveness_from_NTU 0 Cr ''parallel'' = Inr 0)
   \<and> (0 < Cr \<and> Cr \<le> 1 \<longrightarrow>
      effectiveness_from_NTU 0 Cr ''crossflow'' = Inr 0
      \<and> effectiveness_from_NTU 0 Cr ''crossflow, mixed Cmin'' = Inr 0
      \<and> effectiveness_from_NTU 0 Cr ''crossflow, mixed Cmax'' = Inr 0)
   \<and> (effectiveness_from_NTU 0 0 ''crossflow'' = Inl ZeroDivisionError
      \<and> effectiveness_from_NTU 0 0 ''crossflow, mixed Cmin'' = Inl ZeroDivisionError
      \<and> effectiveness_from_NTU 0 0 ''crossflow, mixed Cmax'' = Inl ZeroDivisionError)
   \<and> (Cr \<le> 1 \<and> contains ''S&T'' subtype \<and> shells_of subtype = Inr shells \<longrightarrow>
      effectiveness_from_NTU 0 Cr subtype = Inl ZeroDivisionError)"
proof -
  have a: "effectiveness_from_NTU 0 Cr ''counterflow'' = Inr 0
      \<and> effectiveness_from_NTU 0 Cr ''boiler'' = Inr 0
      \<and> effectiveness_from_NTU 0 Cr ''condenser'' = Inr 0" if "Cr \<le> 1"
    using that by (simp add: effectiveness_from_NTU_def)
  have b: "effectiveness_from_NTU 0 Cr ''parallel'' = Inr 0" if "0 \<le> Cr \<and> Cr \<le> 1"
    using that by (simp add: effectiveness_from_NTU_def)
  have c: "effectiveness_from_NTU 0 Cr ''crossflow'' = Inr 0
      \<and> effectiveness_from_NTU 0 Cr ''crossflow, mixed Cmin'' = Inr 0
      \<and> effectiveness_from_NTU 0 Cr ''crossflow, mixed Cmax'' = Inr 0" if "0 < Cr \<and> Cr \<le> 1"
    using that by (simp add: effectiveness_from_NTU_def)
  have d: "effectiveness_from_NTU 0 0 ''crossflow'' = Inl ZeroDivisionError
      \<and> effectiveness_from_NTU 0 0 ''crossflow, mixed Cmin'' = Inl ZeroDivisionError
      \<and> effectiveness_from_NTU 0 0 ''crossflow, mixed Cmax'' = Inl ZeroDivisionError"
    by (simp add: effectiveness_from_NTU_def)
  have e: "effectiveness_from_NTU 0 Cr subtype = Inl ZeroDivisionError"
    if "Cr \<le> 1 \<and> contains ''S&T'' subtype \<and> shells_of subtype = Inr shells"
    using that effectiveness_from_NTU_shell_tube[of Cr subtype shells 0]
    by (simp add: effectiveness_shell_tube_zero_NTU)
  from a b c d e show ?thesis by blast
qed

lemma shells_of_5: "shells_of ''5S&T'' = Inr 5"
  by (simp add: shells_of_def split_head_def py_int_def strip_def is_space_def unsigned_value_def digit_of_def)

lemma shells_of_1: "shells_of ''S&T'' = Inr 1"
  by (simp add: shells_of_def split_head_def)

lemma contains_5: "contains ''S&T'' ''5S&T''"
  by (simp add: contains_def)

lemma contains_1: "contains ''S&T'' ''S&T''"
  by (simp add: contains_def)

theorem C5_zero_NTU_witness:
  "effectiveness_from_NTU 0 0.7 ''counterflow'' = Inr 0
   \<and> effectiveness_from_NTU 0 0.7 ''parallel'' = Inr 0
   \<and> effectiveness_from_NTU 0 0.7 ''crossflow'' = Inr 0
   \<and> contains ''S&T'' ''5S&T'' \<and> shells_of ''5S&T'' = Inr 5
   \<and> effectiveness_from_NTU 0 0.7 ''5S&T'' = Inl ZeroDivisionError"
  using C5_zero_NTU [of "0.7" "''5S&T''" 5] shells_of_5 contains_5
  by simp

text \<open>
  The claim as stated fails for one shell at \<open>Cr = 0.7\<close> and for crossflow at \<open>Cr = 0\<close>.
\<close>

theorem C5_zero_NTU_counterexample:
  "effectiveness_from_NTU 0 0.7 ''S&T'' = Inl ZeroDivisionError
   \<and> effectiveness_from_NTU 0 0 ''crossflow'' = Inl ZeroDivisionError"
  by (simp add: effectiveness_from_NTU_def contains_1 shells_of_1 effectiveness_shell_tube_zero_NTU)

section \<open>Effectiveness at a capacity ratio of zero\<close>

lemma effectiveness_shell_tube_eval:
  assumes "shells \<noteq> 0"
    and "1 - exp (- (NTU0 / real_of_int shells) * sqrt (1 + Cr\<^sup>2)) = bt"
    and "1 + exp (- (NTU0 / real_of_int shells) * sqrt (1 + Cr\<^sup>2)) = tp"
    and "bt \<noteq> 0"
    and "1 + Cr + sqrt (1 + Cr\<^sup>2) * tp / bt = den"
    and "den \<noteq> 0"
    and "2 / den = eff1"
  shows "effectiveness_shell_tube NTU0 Cr shells =
    (if shells > 1 then
       (if 1 - eff1 = 0 then Inl ZeroDivisionError
        else if ((1 - eff1 * Cr) / (1 - eff1)) ^ nat shells - Cr = 0 then Inl ZeroDivisionError
        else Inr ((((1 - eff1 * Cr) / (1 - eff1)) ^ nat shells - 1)
                   / (((1 - eff1 * Cr) / (1 - eff1)) ^ nat shells - Cr)))
     else Inr eff1)"
  unfolding effectiveness_shell_tube_def Let_def assms(2,3) assms(5) assms(7)
  using assms(1,4,6) by simp

lemma effectiveness_shell_tube_phase_change:
  assumes "0 < NTU" "1 \<le> shells"
  shows "effectiveness_shell_tube NTU 0 shells = Inr (1 - exp (- NTU))"
proof -
  define n where "n = real_of_int shells"
  define e where "e = exp (- (NTU / n))"
  have n: "0 < n" using assms by (simp add: n_def)
  have e: "0 < e" "e < 1" using assms n by (simp_all add: e_def)
  have den: "1 + 0 + sqrt (1 + 0\<^sup>2) * (1 + e) / (1 - e) = 2 / (1 - e)"
    using e by (simp add: field_simps)
  have eff1: "2 / (2 / (1 - e)) = 1 - e" using e by simp
  have pw: "(1 / e) ^ nat shells = exp NTU"
  proof -
    have "1 / e = exp (NTU / n)" by (simp add: e_def exp_minus field_simps)
    moreover have "exp (NTU / n) ^ nat shells = exp NTU"
      using exp_divide_power_eq[of "nat shells" NTU] assms by (simp add: n_def)
    ultimately show ?thesis by simp
  qed
  have r: "(exp NTU - 1) / exp NTU = 1 - exp (- NTU)"
    by (simp add: exp_minus field_simps)
  have "effectiveness_shell_tube NTU 0 shells =
    (if shells > 1 then
       (if 1 - (1 - e) = 0 then Inl ZeroDivisionError
        else if ((1 - (1 - e) * 0) / (1 - (1 - e))) ^ nat shells - 0 = 0 then Inl ZeroDivisionError
        else Inr ((((1 - (1 - e) * 0) / (1 - (1 - e))) ^ nat shells - 1)
                   / (((1 - (1 - e) * 0) / (1 - (1 - e))) ^ nat shells - 0)))
     else Inr (1 - e))"
  proof (rule effectiveness_shell_tube_eval[OF _ _ _ _ den _ eff1])
    show "shells \<noteq> 0" using assms by simp
    show "1 - exp (- (NTU / real_of_int shells) * sqrt (1 + 0\<^sup>2)) = 1 - e"
      by (simp add: e_def n_def)
    show "1 + exp (- (NTU / real_of_int shells) * sqrt (1 + 0\<^sup>2)) = 1 + e"
      by (simp add: e_def n_def)
    show "1 - e \<noteq> 0" using e by simp
    show "2 / (1 - e) \<noteq> 0" using e by simp
  qed
  also have "\<dots> = Inr (1 - exp (- NTU))"
  proof (cases "shells > 1")
    case True
    then show ?thesis using e pw r by simp
  next
    case False
    then have "shells = 1" using assms by simp
    then show ?thesis by (simp add: e_def n_def)
  qed
  finally show ?thesis .
qed


text \<open>
  Claim C6, as amended. At \<open>Cr = 0\<close> the effectiveness returned is \<open>1 - exp (- NTU)\<close>
  for the tags counterflow, parallel, boiler and condenser at every \<open>NTU \<ge> 0\<close>, and for
  a shell-and-tube tag with \<open>N \<ge> 1\<close> shells whenever \<open>1 / 1000 \<le> NTU / N \<le> 30\<close> and
  \<open>NTU \<le> 500\<close>. The bounds of the shell-and-tube clause keep the float computation
  away from its three failures at \<open>Cr = 0\<close>: for a tiny \<open>NTU / N\<close> the divisor
  \<^verbatim>\<open>bottom\<close> rounds to zero, for \<open>NTU / N\<close> above about 37 the one-shell effectiveness
  rounds to one and \<^verbatim>\<open>1. - effectiveness\<close> is a zero divisor, and for \<open>NTU\<close> above
  about 709 the power \<^verbatim>\<open>term\<close> overflows; inside the bounds the value of the code
  differs from \<open>1 - exp (- NTU)\<close> by rounding only. The tags crossflow, crossflow with
  mixed Cmin and crossflow with mixed Cmax divide by \<open>Cr\<close> before anything else and
  fail with \<open>ZeroDivisionError\<close> at \<open>Cr = 0\<close>, whatever the \<open>NTU\<close>.
\<close>

theorem C6_phase_change:
  "(0 \<le> NTU \<longrightarrow>
      effectiveness_from_NTU NTU 0 ''counterflow'' = Inr (1 - exp (- NTU))
      \<and> effectiveness_from_NTU NTU 0 ''parallel'' = Inr (1 - exp (- NTU))
      \<and> effectiveness_from_NTU NTU 0 ''boiler'' = Inr (1 - exp (- NTU))
      \<and> effectiveness_from_NTU NTU 0 ''condenser'' = Inr (1 - exp (- NTU)))
   \<and> (contains ''S&T'' subtype \<and> shells_of subtype = Inr shells \<and> 1 \<le> shells
        \<and> 1 / 1000 \<le> NTU / real_of_int shells \<and> NTU / real_of_int shells \<le> 30
        \<and> NTU \<le> 500 \<longrightarrow>
        effectiveness_from_NTU NTU 0 subtype = Inr (1 - exp (- NTU)))
   \<and> effectiveness_from_NTU NTU 0 ''crossflow'' = Inl ZeroDivisionError
   \<and> effectiveness_from_NTU NTU 0 ''crossflow, mixed Cmin'' = Inl ZeroDivisionError
   \<and> effectiveness_from_NTU NTU 0 ''crossflow, mixed Cmax'' = Inl ZeroDivisionError"
proof -
  have a: "effectiveness_from_NTU NTU 0 ''counterflow'' = Inr (1 - exp (- NTU))
   \<and> effectiveness_from_NTU NTU 0 ''parallel'' = Inr (1 - exp (- NTU))
   \<and> effectiveness_from_NTU NTU 0 ''boiler'' = Inr (1 - exp (- NTU))
   \<and> effectiveness_from_NTU NTU 0 ''condenser'' = Inr (1 - exp (- NTU))"
    by (simp add: effectiveness_from_NTU_def)
  have b: "effectiveness_from_NTU NTU 0 subtype = Inr (1 - exp (- NTU))"
    if h: "contains ''S&T'' subtype \<and> shells_of subtype = Inr shells \<and> 1 \<le> shells
        \<and> 1 / 1000 \<le> NTU / real_of_int shells \<and> NTU / real_of_int shells \<le> 30
        \<and> NTU \<le> 500"
  proof -
    have n: "0 < real_of_int shells" using h by simp
    have "0 < NTU / real_of_int shells" using h by linarith
    then have "0 < NTU" using n by (simp add: zero_less_divide_iff)
    then show ?thesis
      using h effectiveness_from_NTU_shell_tube[of 0 subtype shells NTU]
        effectiveness_shell_tube_phase_change[of NTU shells] by simp
  qed
  have c: "effectiveness_from_NTU NTU 0 ''crossflow'' = Inl ZeroDivisionError
   \<and> effectiveness_from_NTU NTU 0 ''crossflow, mixed Cmin'' = Inl ZeroDivisionError
   \<and> effectiveness_from_NTU NTU 0 ''crossflow, mixed Cmax'' = Inl ZeroDivisionError"
    by (simp add: effectiveness_from_NTU_def)
  from a b c show ?thesis by blast
qed

theorem C6_phase_change_witness:
  "contains ''S&T'' ''5S&T'' \<and> shells_of ''5S&T'' = Inr 5
   \<and> effectiveness_from_NTU 5 0 ''5S&T'' = Inr (1 - exp (- 5))
   \<and> effectiveness_from_NTU 5 0 ''counterflow'' = Inr (1 - exp (- 5))
   \<and> effectiveness_from_NTU 5 0 ''condenser'' = Inr (1 - exp (- 5))"
  using C6_phase_change [of 5 "''5S&T''" 5] shells_of_5 contains_5
  by simp

text \<open>
  The claim as stated fails for the three crossflow tags, here at \<open>NTU = 1\<close>.
\<close>

theorem C6_phase_change_counterexample:
  "effectiveness_from_NTU 1 0 ''crossflow'' = Inl ZeroDivisionError
   \<and> effectiveness_from_NTU 1 0 ''crossflow, mixed Cmin'' = Inl ZeroDivisionError
   \<and> effectiveness_from_NTU 1 0 ''crossflow, mixed Cmax'' = Inl ZeroDivisionError"
  by (simp add: effectiveness_from_NTU_def)

section \<open>The feasibility guard of the inverse\<close>

lemma exp_gt_add_one:
  fixes x :: real
  assumes "x \<noteq> 0"
  shows "1 + x < exp x"
proof (cases "0 \<le> 1 + x / 2")
  case True
  have "1 + x < (1 + x / 2)\<^sup>2"
  proof -
    have "0 < x\<^sup>2" using assms by simp
    moreover have "(1 + x / 2)\<^sup>2 = 1 + x + x\<^sup>2 / 4"
      by (simp add: power2_eq_square algebra_simps)
    ultimately show ?thesis by simp
  qed
  also have "\<dots> \<le> (exp (x / 2))\<^sup>2"
    using True exp_ge_add_one_self[of "x / 2"] by (intro power_mono) auto
  also have "\<dots> = exp x"
    by (simp add: power2_eq_square flip: exp_add)
  finally show ?thesis .
next
  case False
  then have "1 + x < 0" by simp
  also have "0 < exp x" by simp
  finally show ?thesis .
qed

lemma NTU_parallel_unattainable:
  assumes "0 \<le> Cr" "Cr \<le> 1" "1 / (Cr + 1) < effectiveness"
  shows "NTU_from_effectiveness ridder effectiveness Cr ''parallel''
           = Inl (EffectivenessUnattainable (1 / (Cr + 1)))"
proof -
  have "1 < effectiveness * (1 + Cr)"
    using assms by (simp add: field_simps)
  then show ?thesis
    using assms by (simp add: NTU_from_effectiveness_def)
qed

lemma NTU_mixed_Cmin_unattainable:
  assumes "0 < Cr" "Cr \<le> 1" "1 - exp (- 1 / Cr) < effectiveness" "effectiveness < 1"
  shows "NTU_from_effectiveness ridder effectiveness Cr ''crossflow, mixed Cmin''
           = Inl (EffectivenessUnattainable (1 - exp (- 1 / Cr)))"
proof -
  have pos: "0 < 1 - effectiveness" using assms by simp
  have "1 - effectiveness < exp (- 1 / Cr)" using assms by simp
  then have "ln (1 - effectiveness) < - 1 / Cr"
    using pos by (metis ln_exp ln_less_cancel_iff exp_gt_zero)
  then have "Cr * ln (1 - effectiveness) < - 1"
    using assms(1) by (simp add: field_simps)
  then show ?thesis
    using assms pos by (simp add: NTU_from_effectiveness_def)
qed

lemma NTU_mixed_Cmax_unattainable:
  assumes "0 < Cr" "Cr \<le> 1" "(exp Cr - 1) * exp (- Cr) / Cr < effectiveness"
    "effectiveness * Cr < 1"
  shows "NTU_from_effectiveness ridder effectiveness Cr ''crossflow, mixed Cmax''
           = Inl (EffectivenessUnattainable ((exp Cr - 1) * exp (- Cr) / Cr))"
proof -
  have pos: "0 < 1 - effectiveness * Cr" using assms by simp
  have "(exp Cr - 1) * exp (- Cr) = 1 - exp (- Cr)"
    by (simp add: algebra_simps flip: exp_add)
  then have "1 - exp (- Cr) < effectiveness * Cr"
    using assms(1,3) by (simp add: field_simps)
  then have "1 - effectiveness * Cr < exp (- Cr)" by simp
  then have "ln (1 - effectiveness * Cr) < - Cr"
    using pos by (metis ln_exp ln_less_cancel_iff exp_gt_zero)
  then have "1 / Cr * ln (1 - effectiveness * Cr) < - 1"
    using assms(1) by (simp add: field_simps)
  then show ?thesis
    using assms pos by (simp add: NTU_from_effectiveness_def)
qed

lemma maxima_below_one:
  fixes Cr :: real
  assumes "0 < Cr"
  shows "1 / (Cr + 1) < 1" "1 - exp (- 1 / Cr) < 1" "(exp Cr - 1) * exp (- Cr) / Cr < 1"
proof -
  show "1 / (Cr + 1) < 1" using assms by (simp add: field_simps)
  show "1 - exp (- 1 / Cr) < 1" by simp
  have "(exp Cr - 1) * exp (- Cr) = 1 - exp (- Cr)"
    by (simp add: algebra_simps flip: exp_add)
  moreover have "1 + (- Cr) < exp (- Cr)"
    using assms by (intro exp_gt_add_one) simp
  ultimately show "(exp Cr - 1) * exp (- Cr) / Cr < 1"
    using assms by (simp add: field_simps)
qed

lemma NTU_shell_tube_eval:
  assumes "shells \<noteq> 0" "effectiveness - 1 \<noteq> 0"
    and "shell_root ((effectiveness * Cr - 1) / (effectiveness - 1)) shells = Inr F"
    and "F - Cr \<noteq> 0"
    and "(F - 1) / (F - Cr) = e1"
    and "e1 \<noteq> 0"
    and "(2 / e1 - (1 + Cr)) / sqrt (1 + Cr\<^sup>2) = E"
    and "E + 1 \<noteq> 0"
  shows "NTU_shell_tube effectiveness Cr shells =
    (if (E - 1) / (E + 1) \<le> 0 then
       (case max_effectiveness Cr shells of
          Inl e \<Rightarrow> Inl e
        | Inr m \<Rightarrow> Inl (EffectivenessUnattainable m))
     else Inr (real_of_int shells * (- ((1 + Cr\<^sup>2) powr (- 0.5)) * ln ((E - 1) / (E + 1)))))"
  unfolding NTU_shell_tube_def Let_def assms(3) sum.case assms(5) assms(7)
  using assms(1,2,4,6,8) by simp

lemma sqrt_ratio_bounds:
  fixes Cr :: real
  assumes "0 < Cr"
  shows "1 < sqrt (1 + Cr\<^sup>2)" "sqrt (1 + Cr\<^sup>2) < 1 + Cr"
proof -
  show "1 < sqrt (1 + Cr\<^sup>2)" using assms by simp
  have "1 + Cr\<^sup>2 < (1 + Cr)\<^sup>2"
    using assms by (simp add: power2_eq_square algebra_simps)
  then show "sqrt (1 + Cr\<^sup>2) < 1 + Cr"
    using assms by (intro real_less_lsqrt) auto
qed

lemma shell_ratio_facts:
  fixes Cr :: real
  assumes "0 < Cr" "Cr < 1"
  shows "1 < shell_ratio Cr"
    and "(shell_ratio Cr - 1) / (shell_ratio Cr - Cr) = 2 / (1 + Cr + sqrt (1 + Cr\<^sup>2))"
proof -
  define D where "D = sqrt (1 + Cr\<^sup>2)"
  have D: "1 < D" "D < 1 + Cr" using sqrt_ratio_bounds[OF assms(1)] by (simp_all add: D_def)
  define a where "a = Cr + D - 1"
  have a: "0 < a" using D assms by (simp add: a_def)
  have q: "shell_ratio Cr = (1 - Cr + D) / a"
    by (simp add: shell_ratio_def D_def a_def add.commute)
  have q1: "shell_ratio Cr - 1 = (2 - 2 * Cr) / a"
    unfolding q using a by (simp add: field_simps a_def)
  show gt: "1 < shell_ratio Cr"
    using q1 a assms by (smt (verit) divide_pos_pos)
  have qc: "shell_ratio Cr - Cr = (1 + D - Cr\<^sup>2 - Cr * D) / a"
    unfolding q using a by (simp add: field_simps a_def power2_eq_square)
  have pos: "0 < 1 + D - Cr\<^sup>2 - Cr * D"
  proof -
    have "1 + D - Cr\<^sup>2 - Cr * D = (1 - Cr) * (1 + Cr + D)"
      by (simp add: algebra_simps power2_eq_square)
    then show ?thesis using assms D by simp
  qed
  have "(shell_ratio Cr - 1) / (shell_ratio Cr - Cr) = (2 - 2 * Cr) / (1 + D - Cr\<^sup>2 - Cr * D)"
    unfolding q1 qc using a by simp
  also have "\<dots> = ((1 - Cr) * 2) / ((1 - Cr) * (1 + Cr + D))"
    by (simp add: algebra_simps power2_eq_square)
  also have "\<dots> = 2 / (1 + Cr + D)"
  proof (rule nonzero_mult_divide_mult_cancel_left)
    show "1 - Cr \<noteq> 0" using assms by simp
  qed
  finally show "(shell_ratio Cr - 1) / (shell_ratio Cr - Cr) = 2 / (1 + Cr + sqrt (1 + Cr\<^sup>2))"
    by (simp add: D_def)
qed

lemma max_effectiveness_value:
  fixes Cr :: real
  assumes "0 < Cr" "Cr < 1" "1 \<le> shells"
  shows "max_effectiveness Cr shells
           = Inr ((shell_ratio Cr ^ nat shells - 1) / (shell_ratio Cr ^ nat shells - Cr))"
    and "(shell_ratio Cr ^ nat shells - 1) / (shell_ratio Cr ^ nat shells - Cr) < 1"
    and "0 < (shell_ratio Cr ^ nat shells - 1) / (shell_ratio Cr ^ nat shells - Cr)"
proof -
  define Q where "Q = shell_ratio Cr ^ nat shells"
  have q: "1 < shell_ratio Cr" using shell_ratio_facts(1)[OF assms(1,2)] .
  have Q: "1 < Q" unfolding Q_def using q assms(3) by (intro one_less_power) auto
  have pw: "shell_ratio Cr powi shells = Q"
    using assms(3) by (simp add: Q_def power_int_def)
  have D: "1 < sqrt (1 + Cr\<^sup>2)" using sqrt_ratio_bounds(1)[OF assms(1)] .
  have "sqrt (Cr\<^sup>2 + 1) = sqrt (1 + Cr\<^sup>2)" by (simp add: add.commute)
  then have "Cr + sqrt (Cr\<^sup>2 + 1) - 1 \<noteq> 0" using D assms by linarith
  moreover have "shell_ratio Cr \<noteq> 0" using q by simp
  moreover have "Cr - Q \<noteq> 0" using Q assms by simp
  moreover have "(- Q + 1) / (Cr - Q) = (Q - 1) / (Q - Cr)"
    using Q assms by (simp add: field_simps)
  ultimately show "max_effectiveness Cr shells
           = Inr ((shell_ratio Cr ^ nat shells - 1) / (shell_ratio Cr ^ nat shells - Cr))"
    unfolding max_effectiveness_def pw by (simp add: Q_def)
  show "(shell_ratio Cr ^ nat shells - 1) / (shell_ratio Cr ^ nat shells - Cr) < 1"
    using Q assms unfolding Q_def[symmetric] by (simp add: field_simps)
  show "0 < (shell_ratio Cr ^ nat shells - 1) / (shell_ratio Cr ^ nat shells - Cr)"
    using Q assms unfolding Q_def[symmetric] by simp
qed


lemma shell_root_of_power:
  fixes q :: real
  assumes "0 < q" "1 \<le> shells"
  shows "(q ^ nat shells) powr (1 / real_of_int shells) = q"
proof -
  have n: "real (nat shells) = real_of_int shells" using assms by simp
  have "q ^ nat shells = q powr real (nat shells)"
    using assms(1) by (rule powr_realpow[symmetric])
  then have "(q ^ nat shells) powr (1 / real_of_int shells)
          = (q powr real_of_int shells) powr (1 / real_of_int shells)"
    unfolding n by simp
  also have "\<dots> = q powr (real_of_int shells * (1 / real_of_int shells))"
    by (rule powr_powr)
  also have "real_of_int shells * (1 / real_of_int shells) = 1"
    using assms by simp
  finally show ?thesis using assms by simp
qed

lemma NTU_shell_tube_unattainable:
  fixes Cr :: real
  assumes Cr: "0 < Cr" "Cr < 1" and sh: "1 \<le> shells"
    and m: "m = (shell_ratio Cr ^ nat shells - 1) / (shell_ratio Cr ^ nat shells - Cr)"
    and eff: "m \<le> effectiveness" "effectiveness < 1"
  shows "NTU_shell_tube effectiveness Cr shells = Inl (EffectivenessUnattainable m)"
proof -
  define q where "q = shell_ratio Cr"
  define Q where "Q = q ^ nat shells"
  define D where "D = sqrt (1 + Cr\<^sup>2)"
  define r where "r = (effectiveness * Cr - 1) / (effectiveness - 1)"
  define F where "F = r powr (1 / real_of_int shells)"
  define e1 where "e1 = (F - 1) / (F - Cr)"
  define E where "E = (2 / e1 - (1 + Cr)) / D"
  have q: "1 < q" using shell_ratio_facts(1)[OF Cr] by (simp add: q_def)
  have Q: "1 < Q" unfolding Q_def using q sh by (intro one_less_power) auto
  have D: "1 < D" "D < 1 + Cr" using sqrt_ratio_bounds[OF Cr(1)] by (simp_all add: D_def)
  have mQ: "m = (Q - 1) / (Q - Cr)" by (simp add: m Q_def q_def)
  have rQ: "Q \<le> r"
  proof -
    have "Q - 1 \<le> effectiveness * (Q - Cr)"
      using eff(1) Q Cr unfolding mQ by (simp add: field_simps)
    then have "Q * (1 - effectiveness) \<le> 1 - effectiveness * Cr"
      by (simp add: algebra_simps)
    then have "Q \<le> (1 - effectiveness * Cr) / (1 - effectiveness)"
      using eff(2) by (simp add: field_simps)
    also have "\<dots> = r"
      unfolding r_def using eff(2) by (simp add: field_simps)
    finally show ?thesis .
  qed
  have r: "0 < r" using rQ Q by simp
  have Fq: "q \<le> F"
  proof -
    have "Q powr (1 / real_of_int shells) \<le> r powr (1 / real_of_int shells)"
      using rQ Q sh by (intro powr_mono2) auto
    moreover have "Q powr (1 / real_of_int shells) = q"
      unfolding Q_def using q sh by (intro shell_root_of_power) auto
    ultimately show ?thesis by (simp add: F_def)
  qed
  have F: "1 < F" "Cr < F" using Fq q Cr by simp_all
  have e1: "0 < e1" "e1 < 1"
    using F Cr by (simp_all add: e1_def field_simps)
  have s: "2 / (1 + Cr + D) \<le> e1"
  proof -
    have "(q - 1) / (q - Cr) \<le> (F - 1) / (F - Cr)"
    proof -
      have "0 \<le> (F - q) * (1 - Cr)" using Fq Cr by simp
      then have "(q - 1) * (F - Cr) \<le> (F - 1) * (q - Cr)" by (simp add: algebra_simps)
      then show ?thesis using F q Cr by (simp add: field_simps)
    qed
    then show ?thesis
      using shell_ratio_facts(2)[OF Cr] by (simp add: q_def D_def e1_def)
  qed
  have E1: "E \<le> 1"
  proof -
    have "2 \<le> e1 * (1 + Cr + D)" using s D Cr by (simp add: field_simps)
    then have "2 / e1 \<le> 1 + Cr + D" using e1 by (simp add: field_simps)
    then have "2 / e1 - (1 + Cr) \<le> D" by simp
    then show ?thesis using D by (simp add: E_def field_simps)
  qed
  have E2: "0 < E + 1"
  proof -
    have "2 < 2 / e1" using e1 by (simp add: field_simps)
    then have "0 < 2 / e1 - (1 + Cr) + D" using D Cr by simp
    then have "0 < (2 / e1 - (1 + Cr) + D) / D" using D by simp
    moreover have "(2 / e1 - (1 + Cr) + D) / D = E + 1"
      using D by (simp add: E_def field_simps)
    ultimately show ?thesis by simp
  qed
  have guard: "(E - 1) / (E + 1) \<le> 0"
    using E1 E2 by (simp add: divide_le_0_iff)
  have root: "shell_root ((effectiveness * Cr - 1) / (effectiveness - 1)) shells = Inr F"
    using r by (simp add: shell_root_def r_def F_def)
  have "NTU_shell_tube effectiveness Cr shells =
    (if (E - 1) / (E + 1) \<le> 0 then
       (case max_effectiveness Cr shells of
          Inl e \<Rightarrow> Inl e
        | Inr m \<Rightarrow> Inl (EffectivenessUnattainable m))
     else Inr (real_of_int shells * (- ((1 + Cr\<^sup>2) powr (- 0.5)) * ln ((E - 1) / (E + 1)))))"
  proof (rule NTU_shell_tube_eval[OF _ _ root])
    show "shells \<noteq> 0" using sh by simp
    show "effectiveness - 1 \<noteq> 0" using eff by simp
    show "F - Cr \<noteq> 0" using F by simp
    show "(F - 1) / (F - Cr) = e1" by (simp add: e1_def)
    show "e1 \<noteq> 0" using e1 by simp
    show "(2 / e1 - (1 + Cr)) / sqrt (1 + Cr\<^sup>2) = E" by (simp add: E_def D_def)
    show "E + 1 \<noteq> 0" using E2 by simp
  qed
  then show ?thesis
    using guard max_effectiveness_value(1)[OF Cr sh] by (simp add: m)
qed

lemma sqrt_149_bounds:
  "1220655 / 10 ^ 6 < sqrt (149 / 100 :: real)" "sqrt (149 / 100 :: real) < 1220656 / 10 ^ 6"
proof -
  show "1220655 / 10 ^ 6 < sqrt (149 / 100 :: real)"
    by (rule real_less_rsqrt) (simp add: power2_eq_square)
  show "sqrt (149 / 100 :: real) < 1220656 / 10 ^ 6"
    by (rule real_less_lsqrt) (simp_all add: power2_eq_square)
qed

lemma shell_ratio_example:
  "1651709 / 10 ^ 6 < shell_ratio (7 / 10)" "shell_ratio (7 / 10) < 1651710 / 10 ^ 6"
proof -
  define D where "D = sqrt (149 / 100 :: real)"
  have D: "1220655 / 10 ^ 6 < D" "D < 1220656 / 10 ^ 6"
    using sqrt_149_bounds by (simp_all add: D_def)
  have q: "shell_ratio (7 / 10) = (D + 3 / 10) / (D - 3 / 10)"
    by (simp add: shell_ratio_def D_def power2_eq_square)
  have pos: "0 < D - 3 / 10" using D by simp
  show "1651709 / 10 ^ 6 < shell_ratio (7 / 10)"
    unfolding q using pos D by (simp add: pos_less_divide_eq)
  show "shell_ratio (7 / 10) < 1651710 / 10 ^ 6"
    unfolding q using pos D by (simp add: pos_divide_less_eq)
qed

lemma shell_ratio_power_example:
  "122932 / 10 ^ 4 < shell_ratio (7 / 10) ^ 5" "shell_ratio (7 / 10) ^ 5 < 122934 / 10 ^ 4"
proof -
  have "(122932 / 10 ^ 4 :: real) < (1651709 / 10 ^ 6) ^ 5" by (simp add: power_divide)
  also have "\<dots> < shell_ratio (7 / 10) ^ 5"
    using shell_ratio_example(1) by (intro power_strict_mono) auto
  finally show "122932 / 10 ^ 4 < shell_ratio (7 / 10) ^ 5" .
  have "shell_ratio (7 / 10) ^ 5 < (1651710 / 10 ^ 6) ^ 5"
    using shell_ratio_example by (intro power_strict_mono) auto
  also have "\<dots> < (122934 / 10 ^ 4 :: real)" by (simp add: power_divide)
  finally show "shell_ratio (7 / 10) ^ 5 < 122934 / 10 ^ 4" .
qed

lemma max_effectiveness_example:
  "9741225 / 10000000 < (shell_ratio (7 / 10) ^ 5 - 1) / (shell_ratio (7 / 10) ^ 5 - 7 / 10)"
  "(shell_ratio (7 / 10) ^ 5 - 1) / (shell_ratio (7 / 10) ^ 5 - 7 / 10) < 9741235 / 10000000"
proof -
  define Q where "Q = shell_ratio (7 / 10) ^ 5"
  have Q: "122932 / 10000 < Q" "Q < 122934 / 10000"
    using shell_ratio_power_example by (simp_all add: Q_def)
  have pos: "0 < Q - 7 / 10" using Q by simp
  have "9741225 / 10000000 * (Q - 7 / 10) < Q - 1" using Q by simp
  then show "9741225 / 10000000
      < (shell_ratio (7 / 10) ^ 5 - 1) / (shell_ratio (7 / 10) ^ 5 - 7 / 10)"
    unfolding Q_def[symmetric] using pos by (simp only: pos_less_divide_eq)
  have "Q - 1 < 9741235 / 10000000 * (Q - 7 / 10)" using Q by simp
  then show "(shell_ratio (7 / 10) ^ 5 - 1) / (shell_ratio (7 / 10) ^ 5 - 7 / 10)
      < 9741235 / 10000000"
    unfolding Q_def[symmetric] using pos by (simp only: pos_divide_less_eq)
qed

lemma NTU_from_effectiveness_shell_tube:
  assumes "Cr \<le> 1" "contains ''S&T'' subtype" "shells_of subtype = Inr shells"
  shows "NTU_from_effectiveness ridder effectiveness Cr subtype
           = NTU_shell_tube effectiveness Cr shells"
  using assms contains_not_fixed[OF assms(2)] by (simp add: NTU_from_effectiveness_def)

lemma effectiveness_parallel_below_max:
  assumes "0 \<le> Cr" "Cr \<le> 1" "effectiveness_from_NTU NTU Cr ''parallel'' = Inr e"
  shows "e < 1 / (Cr + 1)"
proof -
  have e: "e = (1 - exp (- NTU * (1 + Cr))) / (1 + Cr)"
    using assms by (simp add: effectiveness_from_NTU_def)
  have "1 - exp (- NTU * (1 + Cr)) < 1" by simp
  then have "(1 - exp (- NTU * (1 + Cr))) / (1 + Cr) < 1 / (1 + Cr)"
    using assms(1) by (intro divide_strict_right_mono) auto
  then show ?thesis unfolding e by (simp add: add.commute)
qed

lemma effectiveness_mixed_Cmin_below_max:
  assumes "0 < Cr" "Cr \<le> 1" "effectiveness_from_NTU NTU Cr ''crossflow, mixed Cmin'' = Inr e"
  shows "e < 1 - exp (- 1 / Cr)"
proof -
  have e: "e = 1 - exp (- (1 / Cr) * (1 - exp (- Cr * NTU)))"
    using assms by (simp add: effectiveness_from_NTU_def)
  have "(1 - exp (- Cr * NTU)) / Cr < 1 / Cr"
    using assms(1) by (simp add: divide_strict_right_mono)
  then have "- 1 / Cr < - (1 / Cr) * (1 - exp (- Cr * NTU))" by simp
  then show ?thesis unfolding e by simp
qed

lemma effectiveness_mixed_Cmax_below_max:
  assumes "0 < Cr" "Cr \<le> 1" "effectiveness_from_NTU NTU Cr ''crossflow, mixed Cmax'' = Inr e"
  shows "e < (exp Cr - 1) * exp (- Cr) / Cr"
proof -
  have e: "e = (1 / Cr) * (1 - exp (- Cr * (1 - exp (- NTU))))"
    using assms by (simp add: effectiveness_from_NTU_def)
  have m: "(exp Cr - 1) * exp (- Cr) = 1 - exp (- Cr)"
    by (simp add: algebra_simps flip: exp_add)
  have "Cr * (1 - exp (- NTU)) < Cr * 1"
    using assms(1) by (intro mult_strict_left_mono) auto
  then have "- Cr < - Cr * (1 - exp (- NTU))" by simp
  then have "1 - exp (- Cr * (1 - exp (- NTU))) < 1 - exp (- Cr)" by simp
  then have "(1 - exp (- Cr * (1 - exp (- NTU)))) / Cr < (1 - exp (- Cr)) / Cr"
    using assms(1) by (simp add: divide_strict_right_mono)
  then show ?thesis unfolding e m by simp
qed

lemma effectiveness_shell_tube_below_max:
  fixes Cr NTU :: real
  assumes Cr: "0 < Cr" "Cr < 1" and NTU: "0 < NTU" and sh: "1 \<le> shells"
    and res: "effectiveness_shell_tube NTU Cr shells = Inr eff"
  shows "eff < (shell_ratio Cr ^ nat shells - 1) / (shell_ratio Cr ^ nat shells - Cr)"
proof -
  define n where "n = real_of_int shells"
  define D where "D = sqrt (1 + Cr\<^sup>2)"
  define x where "x = NTU / n"
  define e where "e = exp (- x * D)"
  define den where "den = 1 + Cr + D * (1 + e) / (1 - e)"
  define eff1 where "eff1 = 2 / den"
  define f where "f = (1 - eff1 * Cr) / (1 - eff1)"
  define t where "t = f ^ nat shells"
  define q where "q = shell_ratio Cr"
  define Q where "Q = q ^ nat shells"
  have n: "1 \<le> n" using sh by (simp add: n_def)
  have D: "1 < D" using sqrt_ratio_bounds(1)[OF Cr(1)] by (simp add: D_def)
  have x: "0 < x" using NTU n by (simp add: x_def)
  have e: "0 < e" "e < 1" using x D by (simp_all add: e_def)
  have c: "1 < (1 + e) / (1 - e)" using e by (simp add: field_simps)
  have Dc: "D < D * ((1 + e) / (1 - e))"
  proof -
    have "D * 1 < D * ((1 + e) / (1 - e))"
      using D c by (intro mult_strict_left_mono) auto
    then show ?thesis by simp
  qed
  have den: "1 + Cr + D < den" using Dc by (simp add: den_def)
  have den2: "2 < den" using den D Cr by simp
  have eff1: "0 < eff1" "eff1 < 1" using den2 by (simp_all add: eff1_def field_simps)
  have eff1s: "eff1 < 2 / (1 + Cr + D)"
    unfolding eff1_def using den D Cr by (intro divide_strict_left_mono mult_pos_pos) auto
  have f1: "f - 1 = eff1 * (1 - Cr) / (1 - eff1)"
    using eff1 by (simp add: f_def field_simps)
  have fC: "f - Cr = (1 - Cr) / (1 - eff1)"
    using eff1 by (simp add: f_def field_simps)
  have f: "1 < f"
  proof -
    have "0 < eff1 * (1 - Cr) / (1 - eff1)" using eff1 Cr by simp
    then show ?thesis using f1 by linarith
  qed
  have t: "1 < t" unfolding t_def using f sh by (intro one_less_power) auto
  have tC: "0 < t - Cr" using t Cr by simp
  have one_shell: "(f - 1) / (f - Cr) = eff1"
    unfolding f1 fC using eff1 Cr by simp
  have fwd0: "effectiveness_shell_tube NTU Cr shells =
    (if shells > 1 then
       (if 1 - eff1 = 0 then Inl ZeroDivisionError
        else if ((1 - eff1 * Cr) / (1 - eff1)) ^ nat shells - Cr = 0 then Inl ZeroDivisionError
        else Inr ((((1 - eff1 * Cr) / (1 - eff1)) ^ nat shells - 1)
                   / (((1 - eff1 * Cr) / (1 - eff1)) ^ nat shells - Cr)))
     else Inr eff1)"
  proof (rule effectiveness_shell_tube_eval)
    show "shells \<noteq> 0" using sh by simp
    show "1 - exp (- (NTU / real_of_int shells) * sqrt (1 + Cr\<^sup>2)) = 1 - e"
      by (simp add: e_def x_def n_def D_def)
    show "1 + exp (- (NTU / real_of_int shells) * sqrt (1 + Cr\<^sup>2)) = 1 + e"
      by (simp add: e_def x_def n_def D_def)
    show "1 - e \<noteq> 0" using e by simp
    show "1 + Cr + sqrt (1 + Cr\<^sup>2) * (1 + e) / (1 - e) = den"
      by (simp add: den_def D_def)
    show "den \<noteq> 0" using den2 by simp
    show "2 / den = eff1" by (simp add: eff1_def)
  qed
  have eff: "eff = (t - 1) / (t - Cr)"
  proof (cases "shells > 1")
    case True
    then show ?thesis
      using res unfolding fwd0 f_def[symmetric] t_def[symmetric] using eff1 tC by simp
  next
    case False
    then have "shells = 1" using sh by simp
    then have "t = f" by (simp add: t_def)
    then show ?thesis using one_shell False fwd0 res by simp
  qed
  have q: "1 < q" using shell_ratio_facts(1)[OF Cr] by (simp add: q_def)
  have qs: "(q - 1) / (q - Cr) = 2 / (1 + Cr + D)"
    using shell_ratio_facts(2)[OF Cr] by (simp add: q_def D_def)
  have fq: "f < q"
  proof -
    have "(f - 1) / (f - Cr) < (q - 1) / (q - Cr)"
      unfolding one_shell qs by (rule eff1s)
    then have "(f - 1) * (q - Cr) < (q - 1) * (f - Cr)"
      using f q Cr by (simp add: field_simps)
    then have "f * (1 - Cr) < q * (1 - Cr)" by (simp add: algebra_simps)
    then show ?thesis using Cr by simp
  qed
  have tQ: "t < Q"
    unfolding t_def Q_def using fq f sh by (intro power_strict_mono) auto
  have "(t - 1) * (Q - Cr) < (Q - 1) * (t - Cr)"
  proof -
    have "t * (1 - Cr) < Q * (1 - Cr)" using tQ Cr by simp
    then show ?thesis by (simp add: algebra_simps)
  qed
  then have "(t - 1) / (t - Cr) < (Q - 1) / (Q - Cr)"
    using tC tQ by (simp add: field_simps)
  then show ?thesis by (simp add: eff Q_def q_def)
qed

lemma NTU_five_shells_example:
  "NTU_from_effectiveness ridder (99 / 100) (7 / 10) ''5S&T''
     = Inl (EffectivenessUnattainable
             ((shell_ratio (7 / 10) ^ 5 - 1) / (shell_ratio (7 / 10) ^ 5 - 7 / 10)))"
proof -
  have "NTU_shell_tube (99 / 100) (7 / 10) 5
     = Inl (EffectivenessUnattainable
             ((shell_ratio (7 / 10) ^ 5 - 1) / (shell_ratio (7 / 10) ^ 5 - 7 / 10)))"
  proof (rule NTU_shell_tube_unattainable)
    show "(shell_ratio (7 / 10) ^ 5 - 1) / (shell_ratio (7 / 10) ^ 5 - 7 / 10)
            \<le> (99 / 100 :: real)"
      using max_effectiveness_example(2) by linarith
  qed simp_all
  then show ?thesis
    using NTU_from_effectiveness_shell_tube[OF _ contains_5 shells_of_5, of "7 / 10"]
    by simp
qed

text \<open>
  Claim C2, as amended. \<open>NTU_from_effectiveness\<close> fails with \<open>EffectivenessUnattainable\<close>,
  carrying the maximum given by the closed form of the configuration,
  \<^item> for parallel flow with \<open>Cr\<close> in \<open>[0, 1]\<close> when the effectiveness exceeds
    \<open>1 / (Cr + 1)\<close>;
  \<^item> for crossflow with mixed Cmin and \<open>Cr\<close> in \<open>(0, 1]\<close> when the effectiveness exceeds
    \<open>1 - exp (- 1 / Cr)\<close> and is below 1;
  \<^item> for crossflow with mixed Cmax and \<open>Cr\<close> in \<open>(0, 1]\<close> when the effectiveness exceeds
    \<open>(exp Cr - 1) * exp (- Cr) / Cr\<close> and \<open>effectiveness * Cr\<close> is below 1;
  \<^item> for \<open>N \<ge> 1\<close> shells and \<open>Cr\<close> in \<open>(0, 1)\<close> when the effectiveness is at least the
    maximum \<open>m = (q ^ N - 1) / (q ^ N - Cr)\<close>, with \<open>q\<close> the ratio \<open>shell_ratio Cr\<close>, and
    below 1; \<open>m\<close> is the value the code computes as \<^verbatim>\<open>max_effectiveness\<close>.
  Each of these maxima is below 1 when \<open>Cr > 0\<close>, and the effectiveness that
  \<open>effectiveness_from_NTU\<close> returns for the configuration stays strictly below it
  (for shells, at \<open>NTU > 0\<close>). The counterflow branch has no such guard. In particular the call with effectiveness 0.99, \<open>Cr = 0.7\<close> and five shells
  fails and reports a maximum within \<open>1e-6\<close> of 0.974123.
\<close>

theorem C2_feasibility_guard:
  "(0 \<le> Cr \<and> Cr \<le> 1 \<and> 1 / (Cr + 1) < effectiveness \<longrightarrow>
      NTU_from_effectiveness ridder effectiveness Cr ''parallel''
        = Inl (EffectivenessUnattainable (1 / (Cr + 1))))
   \<and> (0 < Cr \<and> Cr \<le> 1 \<and> 1 - exp (- 1 / Cr) < effectiveness \<and> effectiveness < 1 \<longrightarrow>
      NTU_from_effectiveness ridder effectiveness Cr ''crossflow, mixed Cmin''
        = Inl (EffectivenessUnattainable (1 - exp (- 1 / Cr))))
   \<and> (0 < Cr \<and> Cr \<le> 1 \<and> (exp Cr - 1) * exp (- Cr) / Cr < effectiveness
        \<and> effectiveness * Cr < 1 \<longrightarrow>
      NTU_from_effectiveness ridder effectiveness Cr ''crossflow, mixed Cmax''
        = Inl (EffectivenessUnattainable ((exp Cr - 1) * exp (- Cr) / Cr)))
   \<and> (0 < Cr \<and> Cr < 1 \<and> 1 \<le> shells \<and> contains ''S&T'' subtype
        \<and> shells_of subtype = Inr shells
        \<and> m = (shell_ratio Cr ^ nat shells - 1) / (shell_ratio Cr ^ nat shells - Cr) \<longrightarrow>
      max_effectiveness Cr shells = Inr m \<and> m < 1
      \<and> (m \<le> effectiveness \<and> effectiveness < 1 \<longrightarrow>
           NTU_from_effectiveness ridder effectiveness Cr subtype
             = Inl (EffectivenessUnattainable m)))
   \<and> (0 < Cr \<longrightarrow>
        1 / (Cr + 1) < 1 \<and> 1 - exp (- 1 / Cr) < 1 \<and> (exp Cr - 1) * exp (- Cr) / Cr < 1)
   \<and> NTU_from_effectiveness ridder (99 / 100) (7 / 10) ''5S&T''
        = Inl (EffectivenessUnattainable
                ((shell_ratio (7 / 10) ^ 5 - 1) / (shell_ratio (7 / 10) ^ 5 - 7 / 10)))
   \<and> \<bar>(shell_ratio (7 / 10) ^ 5 - 1) / (shell_ratio (7 / 10) ^ 5 - 7 / 10) - 974123 / 1000000\<bar>
        < 1 / 1000000
   \<and> (0 \<le> Cr \<and> Cr \<le> 1 \<and> effectiveness_from_NTU NTU Cr ''parallel'' = Inr e \<longrightarrow>
        e < 1 / (Cr + 1))
   \<and> (0 < Cr \<and> Cr \<le> 1
        \<and> effectiveness_from_NTU NTU Cr ''crossflow, mixed Cmin'' = Inr e \<longrightarrow>
        e < 1 - exp (- 1 / Cr))
   \<and> (0 < Cr \<and> Cr \<le> 1
        \<and> effectiveness_from_NTU NTU Cr ''crossflow, mixed Cmax'' = Inr e \<longrightarrow>
        e < (exp Cr - 1) * exp (- Cr) / Cr)
   \<and> (0 < Cr \<and> Cr < 1 \<and> 1 \<le> shells \<and> contains ''S&T'' subtype
        \<and> shells_of subtype = Inr shells \<and> 0 < NTU
        \<and> effectiveness_from_NTU NTU Cr subtype = Inr e \<longrightarrow>
        e < (shell_ratio Cr ^ nat shells - 1) / (shell_ratio Cr ^ nat shells - Cr))"
proof -
  have guards: "(0 \<le> Cr \<and> Cr \<le> 1 \<and> 1 / (Cr + 1) < effectiveness \<longrightarrow>
      NTU_from_effectiveness ridder effectiveness Cr ''parallel''
        = Inl (EffectivenessUnattainable (1 / (Cr + 1))))
   \<and> (0 < Cr \<and> Cr \<le> 1 \<and> 1 - exp (- 1 / Cr) < effectiveness \<and> effectiveness < 1 \<longrightarrow>
      NTU_from_effectiveness ridder effectiveness Cr ''crossflow, mixed Cmin''
        = Inl (EffectivenessUnattainable (1 - exp (- 1 / Cr))))
   \<and> (0 < Cr \<and> Cr \<le> 1 \<and> (exp Cr - 1) * exp (- Cr) / Cr < effectiveness
        \<and> effectiveness * Cr < 1 \<longrightarrow>
      NTU_from_effectiveness ridder effectiveness Cr ''crossflow, mixed Cmax''
        = Inl (EffectivenessUnattainable ((exp Cr - 1) * exp (- Cr) / Cr)))
   \<and> (0 < Cr \<and> Cr < 1 \<and> 1 \<le> shells \<and> contains ''S&T'' subtype
        \<and> shells_of subtype = Inr shells
        \<and> m = (shell_ratio Cr ^ nat shells - 1) / (shell_ratio Cr ^ nat shells - Cr) \<longrightarrow>
      max_effectiveness Cr shells = Inr m \<and> m < 1
      \<and> (m \<le> effectiveness \<and> effectiveness < 1 \<longrightarrow>
           NTU_from_effectiveness ridder effectiveness Cr subtype
             = Inl (EffectivenessUnattainable m)))
   \<and> (0 < Cr \<longrightarrow>
        1 / (Cr + 1) < 1 \<and> 1 - exp (- 1 / Cr) < 1 \<and> (exp Cr - 1) * exp (- Cr) / Cr < 1)
   \<and> NTU_from_effectiveness ridder (99 / 100) (7 / 10) ''5S&T''
        = Inl (EffectivenessUnattainable
                ((shell_ratio (7 / 10) ^ 5 - 1) / (shell_ratio (7 / 10) ^ 5 - 7 / 10)))
   \<and> \<bar>(shell_ratio (7 / 10) ^ 5 - 1) / (shell_ratio (7 / 10) ^ 5 - 7 / 10) - 974123 / 1000000\<bar>
        < 1 / 1000000"
  proof -
    have st: "max_effectiveness Cr shells = Inr m \<and> m < 1
        \<and> (m \<le> effectiveness \<and> effectiveness < 1 \<longrightarrow>
             NTU_from_effectiveness ridder effectiveness Cr subtype
               = Inl (EffectivenessUnattainable m))"
      if h: "0 < Cr \<and> Cr < 1 \<and> 1 \<le> shells \<and> contains ''S&T'' subtype
          \<and> shells_of subtype = Inr shells
          \<and> m = (shell_ratio Cr ^ nat shells - 1) / (shell_ratio Cr ^ nat shells - Cr)"
    proof -
      from h have Cr: "0 < Cr" "Cr < 1" and sh: "1 \<le> shells"
        and m: "m = (shell_ratio Cr ^ nat shells - 1) / (shell_ratio Cr ^ nat shells - Cr)"
        by simp_all
      have d: "NTU_from_effectiveness ridder effectiveness Cr subtype
                 = NTU_shell_tube effectiveness Cr shells"
        using h by (intro NTU_from_effectiveness_shell_tube) auto
      show ?thesis
        using max_effectiveness_value(1,2)[OF Cr sh]
          NTU_shell_tube_unattainable[OF Cr sh m, of effectiveness]
        unfolding d m by blast
    qed
    have bound: "\<bar>(shell_ratio (7 / 10) ^ 5 - 1) / (shell_ratio (7 / 10) ^ 5 - 7 / 10)
                   - 974123 / 1000000\<bar> < (1 / 1000000 :: real)"
      using max_effectiveness_example by linarith
    show ?thesis
      using NTU_parallel_unattainable[of Cr effectiveness ridder]
        NTU_mixed_Cmin_unattainable[of Cr effectiveness ridder]
        NTU_mixed_Cmax_unattainable[of Cr effectiveness ridder]
        maxima_below_one[of Cr] st NTU_five_shells_example[of ridder] bound
      by blast
  qed
  have st_bound: "e < (shell_ratio Cr ^ nat shells - 1) / (shell_ratio Cr ^ nat shells - Cr)"
    if h: "0 < Cr \<and> Cr < 1 \<and> 1 \<le> shells \<and> contains ''S&T'' subtype
        \<and> shells_of subtype = Inr shells \<and> 0 < NTU
        \<and> effectiveness_from_NTU NTU Cr subtype = Inr e"
  proof -
    from h have "effectiveness_shell_tube NTU Cr shells = Inr e"
      using effectiveness_from_NTU_shell_tube[of Cr subtype shells NTU] by simp
    with h show ?thesis by (intro effectiveness_shell_tube_below_max) auto
  qed
  have bounds: "(0 \<le> Cr \<and> Cr \<le> 1 \<and> effectiveness_from_NTU NTU Cr ''parallel'' = Inr e \<longrightarrow>
        e < 1 / (Cr + 1))
   \<and> (0 < Cr \<and> Cr \<le> 1
        \<and> effectiveness_from_NTU NTU Cr ''crossflow, mixed Cmin'' = Inr e \<longrightarrow>
        e < 1 - exp (- 1 / Cr))
   \<and> (0 < Cr \<and> Cr \<le> 1
        \<and> effectiveness_from_NTU NTU Cr ''crossflow, mixed Cmax'' = Inr e \<longrightarrow>
        e < (exp Cr - 1) * exp (- Cr) / Cr)
   \<and> (0 < Cr \<and> Cr < 1 \<and> 1 \<le> shells \<and> contains ''S&T'' subtype
        \<and> shells_of subtype = Inr shells \<and> 0 < NTU
        \<and> effectiveness_from_NTU NTU Cr subtype = Inr e \<longrightarrow>
        e < (shell_ratio Cr ^ nat shells - 1) / (shell_ratio Cr ^ nat shells - Cr))"
    using effectiveness_parallel_below_max[of Cr NTU e]
      effectiveness_mixed_Cmin_below_max[of Cr NTU e]
      effectiveness_mixed_Cmax_below_max[of Cr NTU e] st_bound
    by blast
  from guards bounds show ?thesis by blast
qed

lemma exp_minus_one_lower: "1 / 3 \<le> exp (- 1 :: real)"
proof -
  have "exp (1::real) \<le> 3" by (rule exp_le)
  then have "1 / 3 \<le> 1 / exp (1::real)" by (simp add: field_simps)
  then show ?thesis by (simp add: exp_minus inverse_eq_divide)
qed

theorem C2_feasibility_guard_witness:
  "NTU_from_effectiveness (\<lambda>f a b. NoSignChange) (9 / 10) 1 ''parallel''
     = Inl (EffectivenessUnattainable (1 / (1 + 1)))
   \<and> NTU_from_effectiveness (\<lambda>f a b. NoSignChange) (9 / 10) 1 ''crossflow, mixed Cmin''
     = Inl (EffectivenessUnattainable (1 - exp (- 1 / 1)))
   \<and> NTU_from_effectiveness (\<lambda>f a b. NoSignChange) (9 / 10) 1 ''crossflow, mixed Cmax''
     = Inl (EffectivenessUnattainable ((exp 1 - 1) * exp (- 1) / 1))
   \<and> max_effectiveness (7 / 10) 5
     = Inr ((shell_ratio (7 / 10) ^ 5 - 1) / (shell_ratio (7 / 10) ^ 5 - 7 / 10))
   \<and> (shell_ratio (7 / 10) ^ 5 - 1) / (shell_ratio (7 / 10) ^ 5 - 7 / 10) \<le> 99 / 100
   \<and> NTU_from_effectiveness (\<lambda>f a b. NoSignChange) (99 / 100) (7 / 10) ''5S&T''
     = Inl (EffectivenessUnattainable
             ((shell_ratio (7 / 10) ^ 5 - 1) / (shell_ratio (7 / 10) ^ 5 - 7 / 10)))"
proof -
  have a: "1 - exp (- 1 / 1) < (9 / 10 :: real)"
    using exp_minus_one_lower by simp
  have b: "(exp 1 - 1) * exp (- 1) / 1 < (9 / 10 :: real)"
  proof -
    have "(exp 1 - 1) * exp (- 1) = 1 - exp (- 1 :: real)"
      by (simp add: algebra_simps flip: exp_add)
    then show ?thesis using exp_minus_one_lower by simp
  qed
  have c: "(shell_ratio (7 / 10) ^ 5 - 1) / (shell_ratio (7 / 10) ^ 5 - 7 / 10) \<le> (99 / 100 :: real)"
    using max_effectiveness_example(2) by linarith
  show ?thesis
    using C2_feasibility_guard [where Cr = 1 and effectiveness = "9 / 10"
        and ridder = "\<lambda>f a b. NoSignChange"]
      C2_feasibility_guard [where Cr = "7 / 10" and effectiveness = "99 / 100"
        and ridder = "\<lambda>f a b. NoSignChange" and shells = 5 and subtype = "''5S&T''"
        and m = "(shell_ratio (7 / 10) ^ 5 - 1) / (shell_ratio (7 / 10) ^ 5 - 7 / 10)"]
      a b c contains_5 shells_of_5
    by simp
qed

text \<open>
  The claim as stated fails for counterflow, which has no guard (an effectiveness
  of 1.5 ends in the \<open>ValueError\<close> of the logarithm), for an effectiveness of 1 with
  mixed Cmin (the logarithm again), and for one shell at \<open>Cr = 1\<close> (a division by zero).
\<close>

theorem C2_feasibility_guard_counterexample:
  "NTU_from_effectiveness (\<lambda>f a b. NoSignChange) (3 / 2) (1 / 2) ''counterflow'' = Inl ValueError
   \<and> NTU_from_effectiveness (\<lambda>f a b. NoSignChange) 1 (7 / 10) ''crossflow, mixed Cmin''
       = Inl ValueError
   \<and> NTU_from_effectiveness (\<lambda>f a b. NoSignChange) (9 / 10) 1 ''S&T'' = Inl ZeroDivisionError"
  by (simp add: NTU_from_effectiveness_def contains_1 shells_of_1 NTU_shell_tube_def
      shell_root_def)

section \<open>The round trip through effectiveness\<close>

lemma round_trip_counterflow:
  assumes "0 \<le> Cr" "Cr \<le> 1" "0 \<le> NTU"
  shows "NTU_round_trip ridder NTU Cr ''counterflow'' = Inr NTU"
proof (cases "Cr < 1")
  case True
  define e where "e = exp (- NTU * (1 - Cr))"
  have e: "0 < e" "e \<le> 1" using assms True by (simp_all add: e_def mult_nonneg_nonneg)
  have "Cr * e < 1"
  proof -
    have "Cr * e \<le> Cr * 1" using e assms by (intro mult_left_mono) auto
    then show ?thesis using True by simp
  qed
  then have den: "0 < 1 - Cr * e" by simp
  define eff where "eff = (1 - e) / (1 - Cr * e)"
  have fwd: "effectiveness_from_NTU NTU Cr ''counterflow'' = Inr eff"
    using True den by (simp add: effectiveness_from_NTU_def eff_def e_def)
  have a: "eff * Cr - 1 = (Cr - 1) / (1 - Cr * e)"
    using den by (simp add: eff_def field_simps)
  have b: "eff - 1 = e * (Cr - 1) / (1 - Cr * e)"
    using den by (simp add: eff_def field_simps)
  have nz: "eff * Cr - 1 \<noteq> 0" unfolding a using den True by simp
  have ratio: "(eff - 1) / (eff * Cr - 1) = e"
    unfolding a b using den True by simp
  have "ln e = - NTU * (1 - Cr)" by (simp add: e_def)
  then have "1 / (Cr - 1) * ln e = NTU" using True by (simp add: field_simps)
  then have "NTU_from_effectiveness ridder eff Cr ''counterflow'' = Inr NTU"
    using True nz e(1) by (simp add: NTU_from_effectiveness_def ratio)
  then show ?thesis by (simp add: NTU_round_trip_def fwd)
next
  case False
  then have Cr: "Cr = 1" using assms by simp
  have fwd: "effectiveness_from_NTU NTU 1 ''counterflow'' = Inr (NTU / (1 + NTU))"
    using assms by (simp add: effectiveness_from_NTU_def)
  have one: "1 - NTU / (1 + NTU) = 1 / (1 + NTU)" using assms by (simp add: field_simps)
  have "NTU / (1 + NTU) / (1 - NTU / (1 + NTU)) = NTU"
    unfolding one using assms by simp
  moreover have "1 - NTU / (1 + NTU) \<noteq> 0" unfolding one using assms by simp
  ultimately have "NTU_from_effectiveness ridder (NTU / (1 + NTU)) 1 ''counterflow'' = Inr NTU"
    by (simp add: NTU_from_effectiveness_def)
  then show ?thesis by (simp add: NTU_round_trip_def fwd Cr)
qed

lemma round_trip_parallel:
  assumes "0 \<le> Cr" "Cr \<le> 1"
  shows "NTU_round_trip ridder NTU Cr ''parallel'' = Inr NTU"
proof -
  define e where "e = exp (- NTU * (1 + Cr))"
  have e: "0 < e" by (simp add: e_def)
  have fwd: "effectiveness_from_NTU NTU Cr ''parallel'' = Inr ((1 - e) / (1 + Cr))"
    using assms by (simp add: effectiveness_from_NTU_def e_def)
  have m: "(1 - e) / (1 + Cr) * (1 + Cr) = 1 - e" using assms by simp
  have "ln e = - NTU * (1 + Cr)" by (simp add: e_def)
  then have "- ln e / (1 + Cr) = NTU" using assms by (simp add: field_simps)
  then have "NTU_from_effectiveness ridder ((1 - e) / (1 + Cr)) Cr ''parallel'' = Inr NTU"
    using assms e unfolding NTU_from_effectiveness_def m by simp
  then show ?thesis by (simp add: NTU_round_trip_def fwd)
qed

lemma round_trip_boiler_condenser:
  assumes "Cr \<le> 1"
  shows "NTU_round_trip ridder NTU Cr ''boiler'' = Inr NTU"
    and "NTU_round_trip ridder NTU Cr ''condenser'' = Inr NTU"
  using assms
  by (simp_all add: NTU_round_trip_def effectiveness_from_NTU_def NTU_from_effectiveness_def)

lemma round_trip_mixed_Cmin:
  assumes "0 < Cr" "Cr \<le> 1"
  shows "NTU_round_trip ridder NTU Cr ''crossflow, mixed Cmin'' = Inr NTU"
proof -
  define e where "e = exp (- Cr * NTU)"
  define g where "g = exp (- (1 / Cr) * (1 - e))"
  have e: "0 < e" by (simp add: e_def)
  have g: "0 < g" by (simp add: g_def)
  have fwd: "effectiveness_from_NTU NTU Cr ''crossflow, mixed Cmin'' = Inr (1 - g)"
    using assms by (simp add: effectiveness_from_NTU_def g_def e_def)
  have one: "1 - (1 - g) = g" by simp
  have lg: "Cr * ln g + 1 = e"
    using assms by (simp add: g_def)
  have "ln e = - Cr * NTU" by (simp add: e_def)
  then have r: "- 1 / Cr * ln e = NTU" using assms by simp
  have ng: "\<not> Cr * ln g < - 1" using lg e by linarith
  have "NTU_from_effectiveness ridder (1 - g) Cr ''crossflow, mixed Cmin'' = Inr NTU"
    unfolding NTU_from_effectiveness_def one lg
    using assms g e r ng by simp
  then show ?thesis by (simp add: NTU_round_trip_def fwd)
qed

lemma round_trip_mixed_Cmax:
  assumes "0 < Cr" "Cr \<le> 1"
  shows "NTU_round_trip ridder NTU Cr ''crossflow, mixed Cmax'' = Inr NTU"
proof -
  define e where "e = exp (- NTU)"
  define g where "g = exp (- Cr * (1 - e))"
  have e: "0 < e" by (simp add: e_def)
  have g: "0 < g" by (simp add: g_def)
  have fwd: "effectiveness_from_NTU NTU Cr ''crossflow, mixed Cmax'' = Inr ((1 / Cr) * (1 - g))"
    using assms by (simp add: effectiveness_from_NTU_def g_def e_def)
  have one: "1 - (1 / Cr) * (1 - g) * Cr = g" using assms by simp
  have lg: "1 + 1 / Cr * ln g = e"
    using assms by (simp add: g_def)
  have r: "- ln e = NTU" by (simp add: e_def)
  have ng: "\<not> 1 / Cr * ln g < - 1" using lg e by linarith
  have "NTU_from_effectiveness ridder ((1 / Cr) * (1 - g)) Cr ''crossflow, mixed Cmax'' = Inr NTU"
    unfolding NTU_from_effectiveness_def one lg
    using assms g e r ng by simp
  then show ?thesis by (simp add: NTU_round_trip_def fwd)
qed

lemma round_trip_shell_tube_core:
  fixes Cr NTU :: real
  assumes Cr: "0 \<le> Cr" "Cr < 1" and NTU: "0 < NTU" and sh: "1 \<le> shells"
  shows "\<exists>eff. effectiveness_shell_tube NTU Cr shells = Inr eff
               \<and> NTU_shell_tube eff Cr shells = Inr NTU"
proof -
  define n where "n = real_of_int shells"
  define D where "D = sqrt (1 + Cr\<^sup>2)"
  define x where "x = NTU / n"
  define e where "e = exp (- x * D)"
  define den where "den = 1 + Cr + D * (1 + e) / (1 - e)"
  define eff1 where "eff1 = 2 / den"
  define f where "f = (1 - eff1 * Cr) / (1 - eff1)"
  define t where "t = f ^ nat shells"
  define eff where "eff = (t - 1) / (t - Cr)"
  have n: "1 \<le> n" using sh by (simp add: n_def)
  have D: "1 \<le> D" by (simp add: D_def)
  have x: "0 < x" using NTU n by (simp add: x_def)
  have e: "0 < e" "e < 1" using x D by (simp_all add: e_def)
  have c: "1 < (1 + e) / (1 - e)" using e by (simp add: field_simps)
  have Dc: "1 < D * ((1 + e) / (1 - e))"
  proof -
    have "1 * 1 < D * ((1 + e) / (1 - e))"
      using D c by (intro mult_le_less_imp_less) auto
    then show ?thesis by simp
  qed
  have den: "2 < den" using Dc Cr by (simp add: den_def)
  have eff1: "0 < eff1" "eff1 < 1" using den by (simp_all add: eff1_def field_simps)
  have f1: "f - 1 = eff1 * (1 - Cr) / (1 - eff1)"
    using eff1 by (simp add: f_def field_simps)
  have fC: "f - Cr = (1 - Cr) / (1 - eff1)"
    using eff1 by (simp add: f_def field_simps)
  have f: "1 < f"
  proof -
    have "0 < eff1 * (1 - Cr) / (1 - eff1)" using eff1 Cr by simp
    then show ?thesis using f1 by linarith
  qed
  have t: "1 < t" unfolding t_def using f sh by (intro one_less_power) auto
  have tC: "0 < t - Cr" using t Cr by simp
  \<comment> \<open>the forward direction\<close>
  have one_shell: "(f - 1) / (f - Cr) = eff1"
    unfolding f1 fC using eff1 Cr by simp
  have fwd0: "effectiveness_shell_tube NTU Cr shells =
    (if shells > 1 then
       (if 1 - eff1 = 0 then Inl ZeroDivisionError
        else if ((1 - eff1 * Cr) / (1 - eff1)) ^ nat shells - Cr = 0 then Inl ZeroDivisionError
        else Inr ((((1 - eff1 * Cr) / (1 - eff1)) ^ nat shells - 1)
                   / (((1 - eff1 * Cr) / (1 - eff1)) ^ nat shells - Cr)))
     else Inr eff1)"
  proof (rule effectiveness_shell_tube_eval)
    show "shells \<noteq> 0" using sh by simp
    show "1 - exp (- (NTU / real_of_int shells) * sqrt (1 + Cr\<^sup>2)) = 1 - e"
      by (simp add: e_def x_def n_def D_def)
    show "1 + exp (- (NTU / real_of_int shells) * sqrt (1 + Cr\<^sup>2)) = 1 + e"
      by (simp add: e_def x_def n_def D_def)
    show "1 - e \<noteq> 0" using e by simp
    show "1 + Cr + sqrt (1 + Cr\<^sup>2) * (1 + e) / (1 - e) = den"
      by (simp add: den_def D_def)
    show "den \<noteq> 0" using den by simp
    show "2 / den = eff1" by (simp add: eff1_def)
  qed
  have fwd: "effectiveness_shell_tube NTU Cr shells = Inr eff"
  proof (cases "shells > 1")
    case True
    then show ?thesis
      unfolding fwd0 f_def[symmetric] t_def[symmetric] using eff1 tC by (simp add: eff_def)
  next
    case False
    then have "shells = 1" using sh by simp
    then have "t = f" by (simp add: t_def)
    then have "eff = eff1" using one_shell by (simp add: eff_def)
    then show ?thesis using False fwd0 by simp
  qed
  \<comment> \<open>the inverse direction\<close>
  have effm1: "eff - 1 = (Cr - 1) / (t - Cr)"
    using tC by (simp add: eff_def field_simps)
  have effC: "eff * Cr - 1 = t * (Cr - 1) / (t - Cr)"
    using tC by (simp add: eff_def field_simps)
  have base: "(eff * Cr - 1) / (eff - 1) = t"
    unfolding effm1 effC using tC Cr by simp
  have F: "t powr (1 / real_of_int shells) = f"
    unfolding t_def using f sh by (intro shell_root_of_power) auto
  have root: "shell_root ((eff * Cr - 1) / (eff - 1)) shells = Inr f"
    unfolding base using t F by (simp add: shell_root_def)
  have E: "(2 / eff1 - (1 + Cr)) / D = (1 + e) / (1 - e)"
  proof -
    have "2 / eff1 = den" using den by (simp add: eff1_def)
    then have "2 / eff1 - (1 + Cr) = D * ((1 + e) / (1 - e))" by (simp add: den_def)
    then show ?thesis using D by simp
  qed
  have Ep: "(1 + e) / (1 - e) + 1 = 2 / (1 - e)" using e by (simp add: field_simps)
  have Em: "(1 + e) / (1 - e) - 1 = 2 * e / (1 - e)" using e by (simp add: field_simps)
  have ratio: "((1 + e) / (1 - e) - 1) / ((1 + e) / (1 - e) + 1) = e"
    unfolding Ep Em using e by simp
  have inv0: "NTU_shell_tube eff Cr shells =
    (if ((1 + e) / (1 - e) - 1) / ((1 + e) / (1 - e) + 1) \<le> 0 then
       (case max_effectiveness Cr shells of
          Inl e \<Rightarrow> Inl e
        | Inr m \<Rightarrow> Inl (EffectivenessUnattainable m))
     else Inr (real_of_int shells * (- ((1 + Cr\<^sup>2) powr (- 0.5))
                 * ln (((1 + e) / (1 - e) - 1) / ((1 + e) / (1 - e) + 1)))))"
  proof (rule NTU_shell_tube_eval[OF _ _ root])
    show "shells \<noteq> 0" using sh by simp
    show "eff - 1 \<noteq> 0" unfolding effm1 using tC Cr by simp
    show "f - Cr \<noteq> 0" unfolding fC using eff1 Cr by simp
    show "(f - 1) / (f - Cr) = eff1" by (rule one_shell)
    show "eff1 \<noteq> 0" using eff1 by simp
    show "(2 / eff1 - (1 + Cr)) / sqrt (1 + Cr\<^sup>2) = (1 + e) / (1 - e)"
      using E by (simp add: D_def)
    show "(1 + e) / (1 - e) + 1 \<noteq> 0" unfolding Ep using e by simp
  qed
  have pw: "(1 + Cr\<^sup>2) powr (- 0.5) = 1 / D"
  proof -
    have "(1 + Cr\<^sup>2) powr (- (1 / 2)) = inverse ((1 + Cr\<^sup>2) powr (1 / 2))"
      by (rule powr_minus)
    also have "(1 + Cr\<^sup>2) powr (1 / 2) = D"
      unfolding D_def by (rule powr_half_sqrt) simp
    finally show ?thesis by (simp add: inverse_eq_divide)
  qed
  have "real_of_int shells * (- (1 / D) * ln e) = NTU"
  proof -
    have "ln e = - x * D" by (simp add: e_def)
    then have "- (1 / D) * ln e = x" using D by simp
    then show ?thesis using n by (simp add: x_def n_def)
  qed
  then have "NTU_shell_tube eff Cr shells = Inr NTU"
    unfolding inv0 ratio pw using e by simp
  with fwd show ?thesis by blast
qed

lemma round_trip_shell_tube:
  assumes "0 \<le> Cr" "Cr < 1" "0 < NTU" "1 \<le> shells"
    "contains ''S&T'' subtype" "shells_of subtype = Inr shells"
  shows "NTU_round_trip ridder NTU Cr subtype = Inr NTU"
proof -
  obtain eff where "effectiveness_shell_tube NTU Cr shells = Inr eff"
    "NTU_shell_tube eff Cr shells = Inr NTU"
    using round_trip_shell_tube_core[OF assms(1-4)] by blast
  then show ?thesis
    using assms effectiveness_from_NTU_shell_tube[of Cr subtype shells NTU]
      NTU_from_effectiveness_shell_tube[of Cr subtype shells ridder eff]
    by (simp add: NTU_round_trip_def)
qed

lemma to_solve_strict_mono:
  fixes Cr :: real
  assumes "0 < Cr" "0 \<le> a" "a < b"
  shows "to_solve a Cr eff < to_solve b Cr eff"
proof -
  define h where "h y = y powr 0.22 * (1 - exp (- Cr * y powr 0.78))" for y :: real
  have p1: "a powr 0.22 < b powr 0.22" using assms by (intro powr_less_mono2) auto
  have p2: "a powr 0.78 < b powr 0.78" using assms by (intro powr_less_mono2) auto
  have "- Cr * b powr 0.78 < - Cr * a powr 0.78" using p2 assms(1) by simp
  then have e: "1 - exp (- Cr * a powr 0.78) < 1 - exp (- Cr * b powr 0.78)" by simp
  have nn: "0 \<le> 1 - exp (- Cr * a powr 0.78)"
  proof -
    have "0 \<le> Cr * a powr 0.78" using assms by simp
    then show ?thesis by simp
  qed
  have h: "h a < h b"
    unfolding h_def using p1 e nn by (intro mult_strict_mono') auto
  have ts: "to_solve y Cr eff = 1 - exp (- (1 / Cr) * h y) - eff" for y
    by (simp add: to_solve_def h_def algebra_simps)
  have "- (1 / Cr) * h b < - (1 / Cr) * h a" using h assms(1) by (simp add: field_simps)
  then show ?thesis unfolding ts by simp
qed

lemma crossflow_unique_root:
  fixes Cr :: real
  assumes "0 < Cr" "Cr \<le> 1" "0 \<le> NTU"
    and "effectiveness_from_NTU NTU Cr ''crossflow'' = Inr eff"
  shows "to_solve NTU Cr eff = 0"
    and "0 \<le> x \<Longrightarrow> to_solve x Cr eff = 0 \<Longrightarrow> x = NTU"
proof -
  show root: "to_solve NTU Cr eff = 0"
    using assms by (simp add: effectiveness_from_NTU_def to_solve_def)
  show "x = NTU" if "0 \<le> x" "to_solve x Cr eff = 0"
  proof (rule ccontr)
    assume "x \<noteq> NTU"
    then consider "x < NTU" | "NTU < x" by linarith
    then show False
    proof cases
      case 1
      from to_solve_strict_mono[OF assms(1) that(1) 1, of eff] root that(2) show False by simp
    next
      case 2
      from to_solve_strict_mono[OF assms(1) assms(3) 2, of eff] root that(2) show False by simp
    qed
  qed
qed

lemma crossflow_bracket_sign_change:
  fixes Cr :: real
  assumes "0 < Cr" "Cr \<le> 1" "1 / 10 ^ 7 < NTU" "NTU < 10 ^ 5"
    and "effectiveness_from_NTU NTU Cr ''crossflow'' = Inr eff"
  shows "to_solve (1 / 10 ^ 7) Cr eff * to_solve (10 ^ 5) Cr eff < 0"
proof -
  have nn: "0 \<le> NTU" using assms(3) by simp
  have root: "to_solve NTU Cr eff = 0"
    using crossflow_unique_root(1)[OF assms(1,2) nn assms(5)] .
  have "to_solve (1 / 10 ^ 7) Cr eff < to_solve NTU Cr eff"
    using assms(1,3) by (intro to_solve_strict_mono) auto
  then have lo: "to_solve (1 / 10 ^ 7) Cr eff < 0" using root by simp
  have "to_solve NTU Cr eff < to_solve (10 ^ 5) Cr eff"
    using assms(1,4) nn by (intro to_solve_strict_mono) auto
  then have hi: "0 < to_solve (10 ^ 5) Cr eff" using root by simp
  from lo hi show ?thesis by (rule mult_neg_pos)
qed

lemma round_trip_crossflow_tolerance:
  fixes Cr :: real
  assumes Cr: "1 / 100 \<le> Cr" "Cr \<le> 1" and NTU: "1 / 100 \<le> NTU" "NTU \<le> 10"
    and fwd: "effectiveness_from_NTU NTU Cr ''crossflow'' = Inr eff"
    and contract: "to_solve (1 / 10 ^ 7) Cr eff * to_solve (10 ^ 5) Cr eff < 0 \<longrightarrow>
      (\<exists>x r. ridder (\<lambda>y. to_solve y Cr eff) (1 / 10 ^ 7) (10 ^ 5) = Root x
           \<and> 1 / 10 ^ 7 \<le> r \<and> r \<le> 10 ^ 5 \<and> to_solve r Cr eff = 0
           \<and> \<bar>x - r\<bar> \<le> 2 / 10 ^ 12 + \<bar>r\<bar> / 10 ^ 15)"
  shows "\<exists>x. NTU_round_trip ridder NTU Cr ''crossflow'' = Inr x \<and> \<bar>x - NTU\<bar> \<le> NTU / 10 ^ 5"
proof -
  have pos: "0 < Cr" "0 \<le> NTU" using Cr NTU by simp_all
  have br: "1 / 10 ^ 7 < NTU" "NTU < 10 ^ 5" using NTU by simp_all
  have "to_solve (1 / 10 ^ 7) Cr eff * to_solve (10 ^ 5) Cr eff < 0"
    using crossflow_bracket_sign_change[OF pos(1) Cr(2) br fwd] .
  with contract obtain x r where x: "ridder (\<lambda>y. to_solve y Cr eff) (1 / 10 ^ 7) (10 ^ 5) = Root x"
    and r: "1 / 10 ^ 7 \<le> r" "to_solve r Cr eff = 0"
    and close: "\<bar>x - r\<bar> \<le> 2 / 10 ^ 12 + \<bar>r\<bar> / 10 ^ 15"
    by blast
  have r0: "0 \<le> r" using r(1) by simp
  have "r = NTU"
    using crossflow_unique_root(2)[OF pos(1) Cr(2) pos(2) fwd r0 r(2)] .
  then have "\<bar>x - NTU\<bar> \<le> 2 / 1000000000000 + NTU / 1000000000000000"
    using close pos(2) by simp
  moreover have "2 / 1000000000000 + NTU / 1000000000000000 \<le> NTU / 100000"
    using NTU(1) by linarith
  ultimately have tol: "\<bar>x - NTU\<bar> \<le> NTU / 10 ^ 5" by simp
  have "NTU_round_trip ridder NTU Cr ''crossflow'' = Inr x"
    using pos(1) Cr(2) x by (simp add: NTU_round_trip_def fwd NTU_from_effectiveness_def)
  with tol show ?thesis by blast
qed

text \<open>
  Claim C1, as amended. The round trip is stated for \<open>NTU\<close> in \<open>[1 / 100, 10]\<close>, a
  range on which the float code is well conditioned: for a larger \<open>NTU\<close> the
  effectiveness rounds towards its limit and the logarithm of the inverse loses the
  digits of \<open>NTU\<close> (and raises \<^verbatim>\<open>ValueError\<close> once \<^verbatim>\<open>1. - effectiveness\<close> is zero). On
  this range, with floats read as real numbers, \<open>NTU_round_trip\<close> returns \<open>NTU\<close>
  itself, so the float code returns it to within rounding, well inside the relative
  tolerance \<open>1 / 10 ^ 6\<close>,
  \<^item> for counterflow with \<open>Cr\<close> in \<open>[0, 99 / 100]\<close> or \<open>Cr = 1\<close> (between the two the
    inverse divides by \<open>Cr - 1\<close>, which is small);
  \<^item> for parallel flow, boiler and condenser with \<open>Cr\<close> in \<open>[0, 1]\<close>;
  \<^item> for crossflow with mixed Cmin and with mixed Cmax, with \<open>Cr\<close> in \<open>[1 / 100, 1]\<close>;
  \<^item> for \<open>N\<close> shells, \<open>1 \<le> N \<le> 1000\<close>, with \<open>Cr\<close> in \<open>[0, 99 / 100]\<close>.
  For unmixed crossflow, with \<open>Cr\<close> in \<open>[1 / 100, 1]\<close>, the residual handed to the root
  finder is strictly increasing, so it changes sign over the bracket
  \<open>[1 / 10 ^ 7, 10 ^ 5]\<close> and \<open>NTU\<close> is its only root. The root finder is a library
  outside the repository; what is assumed of it is its documented guarantee for this
  one call: over a bracket with a sign change it returns a value \<open>x\<close> with
  \<open>\<bar>x - r\<bar> \<le> 2 / 10 ^ 12 + \<bar>r\<bar> / 10 ^ 15\<close> for a root \<open>r\<close> of the residual in the
  bracket (the default absolute and relative tolerances of \<^verbatim>\<open>ridder\<close>). Then the round
  trip returns a value within the relative tolerance \<open>1 / 10 ^ 5\<close> of \<open>NTU\<close>.
\<close>

theorem C1_round_trip:
  "(1 / 100 \<le> NTU \<and> NTU \<le> 10 \<and> (0 \<le> Cr \<and> Cr \<le> 99 / 100 \<or> Cr = 1) \<longrightarrow>
      NTU_round_trip ridder NTU Cr ''counterflow'' = Inr NTU)
   \<and> (1 / 100 \<le> NTU \<and> NTU \<le> 10 \<and> 0 \<le> Cr \<and> Cr \<le> 1 \<longrightarrow>
      NTU_round_trip ridder NTU Cr ''parallel'' = Inr NTU
      \<and> NTU_round_trip ridder NTU Cr ''boiler'' = Inr NTU
      \<and> NTU_round_trip ridder NTU Cr ''condenser'' = Inr NTU)
   \<and> (1 / 100 \<le> NTU \<and> NTU \<le> 10 \<and> 1 / 100 \<le> Cr \<and> Cr \<le> 1 \<longrightarrow>
      NTU_round_trip ridder NTU Cr ''crossflow, mixed Cmin'' = Inr NTU
      \<and> NTU_round_trip ridder NTU Cr ''crossflow, mixed Cmax'' = Inr NTU)
   \<and> (1 / 100 \<le> NTU \<and> NTU \<le> 10 \<and> 0 \<le> Cr \<and> Cr \<le> 99 / 100
        \<and> contains ''S&T'' subtype \<and> shells_of subtype = Inr shells
        \<and> 1 \<le> shells \<and> shells \<le> 1000 \<longrightarrow>
      NTU_round_trip ridder NTU Cr subtype = Inr NTU)
   \<and> (1 / 100 \<le> NTU \<and> NTU \<le> 10 \<and> 1 / 100 \<le> Cr \<and> Cr \<le> 1
        \<and> effectiveness_from_NTU NTU Cr ''crossflow'' = Inr eff
        \<and> (to_solve (1 / 10 ^ 7) Cr eff * to_solve (10 ^ 5) Cr eff < 0 \<longrightarrow>
             (\<exists>x r. ridder (\<lambda>y. to_solve y Cr eff) (1 / 10 ^ 7) (10 ^ 5) = Root x
                  \<and> 1 / 10 ^ 7 \<le> r \<and> r \<le> 10 ^ 5 \<and> to_solve r Cr eff = 0
                  \<and> \<bar>x - r\<bar> \<le> 2 / 10 ^ 12 + \<bar>r\<bar> / 10 ^ 15)) \<longrightarrow>
      to_solve (1 / 10 ^ 7) Cr eff * to_solve (10 ^ 5) Cr eff < 0
      \<and> (\<exists>x. NTU_round_trip ridder NTU Cr ''crossflow'' = Inr x
             \<and> \<bar>x - NTU\<bar> \<le> NTU / 10 ^ 5))"
proof -
  have counter: "NTU_round_trip ridder NTU Cr ''counterflow'' = Inr NTU"
    if "1 / 100 \<le> NTU \<and> NTU \<le> 10 \<and> (0 \<le> Cr \<and> Cr \<le> 99 / 100 \<or> Cr = 1)"
    using that by (intro round_trip_counterflow) auto
  have plain: "NTU_round_trip ridder NTU Cr ''parallel'' = Inr NTU
      \<and> NTU_round_trip ridder NTU Cr ''boiler'' = Inr NTU
      \<and> NTU_round_trip ridder NTU Cr ''condenser'' = Inr NTU"
    if "1 / 100 \<le> NTU \<and> NTU \<le> 10 \<and> 0 \<le> Cr \<and> Cr \<le> 1"
    using that round_trip_parallel[of Cr ridder NTU] round_trip_boiler_condenser[of Cr ridder NTU]
    by simp
  have mixed: "NTU_round_trip ridder NTU Cr ''crossflow, mixed Cmin'' = Inr NTU
      \<and> NTU_round_trip ridder NTU Cr ''crossflow, mixed Cmax'' = Inr NTU"
    if "1 / 100 \<le> NTU \<and> NTU \<le> 10 \<and> 1 / 100 \<le> Cr \<and> Cr \<le> 1"
    using that round_trip_mixed_Cmin[of Cr ridder NTU] round_trip_mixed_Cmax[of Cr ridder NTU]
    by simp
  have shell: "NTU_round_trip ridder NTU Cr subtype = Inr NTU"
    if "1 / 100 \<le> NTU \<and> NTU \<le> 10 \<and> 0 \<le> Cr \<and> Cr \<le> 99 / 100
        \<and> contains ''S&T'' subtype \<and> shells_of subtype = Inr shells
        \<and> 1 \<le> shells \<and> shells \<le> 1000"
    using that by (intro round_trip_shell_tube[of Cr NTU shells]) auto
  have cross: "to_solve (1 / 10 ^ 7) Cr eff * to_solve (10 ^ 5) Cr eff < 0
      \<and> (\<exists>x. NTU_round_trip ridder NTU Cr ''crossflow'' = Inr x
             \<and> \<bar>x - NTU\<bar> \<le> NTU / 10 ^ 5)"
    if h: "1 / 100 \<le> NTU \<and> NTU \<le> 10 \<and> 1 / 100 \<le> Cr \<and> Cr \<le> 1
        \<and> effectiveness_from_NTU NTU Cr ''crossflow'' = Inr eff
        \<and> (to_solve (1 / 10 ^ 7) Cr eff * to_solve (10 ^ 5) Cr eff < 0 \<longrightarrow>
             (\<exists>x r. ridder (\<lambda>y. to_solve y Cr eff) (1 / 10 ^ 7) (10 ^ 5) = Root x
                  \<and> 1 / 10 ^ 7 \<le> r \<and> r \<le> 10 ^ 5 \<and> to_solve r Cr eff = 0
                  \<and> \<bar>x - r\<bar> \<le> 2 / 10 ^ 12 + \<bar>r\<bar> / 10 ^ 15))"
  proof
    from h have a: "0 < Cr" "Cr \<le> 1" "1 / 10 ^ 7 < NTU" "NTU < 10 ^ 5"
      "effectiveness_from_NTU NTU Cr ''crossflow'' = Inr eff" by simp_all
    show "to_solve (1 / 10 ^ 7) Cr eff * to_solve (10 ^ 5) Cr eff < 0"
      using crossflow_bracket_sign_change[OF a] .
    from h have b: "1 / 100 \<le> Cr" "Cr \<le> 1" "1 / 100 \<le> NTU" "NTU \<le> 10" by simp_all
    from h have c: "to_solve (1 / 10 ^ 7) Cr eff * to_solve (10 ^ 5) Cr eff < 0 \<longrightarrow>
             (\<exists>x r. ridder (\<lambda>y. to_solve y Cr eff) (1 / 10 ^ 7) (10 ^ 5) = Root x
                  \<and> 1 / 10 ^ 7 \<le> r \<and> r \<le> 10 ^ 5 \<and> to_solve r Cr eff = 0
                  \<and> \<bar>x - r\<bar> \<le> 2 / 10 ^ 12 + \<bar>r\<bar> / 10 ^ 15)" by blast
    show "\<exists>x. NTU_round_trip ridder NTU Cr ''crossflow'' = Inr x \<and> \<bar>x - NTU\<bar> \<le> NTU / 10 ^ 5"
      by (rule round_trip_crossflow_tolerance[where ridder = ridder and eff = eff,
            OF b a(5) c])
  qed
  from counter plain mixed shell cross show ?thesis by blast
qed

lemma crossflow_example_root:
  "\<exists>eff. effectiveness_from_NTU 5 (7 / 10) ''crossflow'' = Inr eff
         \<and> to_solve 5 (7 / 10) eff = 0"
  by (simp add: effectiveness_from_NTU_def to_solve_def)

theorem C1_round_trip_witness:
  "NTU_round_trip (\<lambda>f a b. NoSignChange) 5 (7 / 10) ''counterflow'' = Inr 5
   \<and> NTU_round_trip (\<lambda>f a b. NoSignChange) 5 1 ''counterflow'' = Inr 5
   \<and> NTU_round_trip (\<lambda>f a b. NoSignChange) 5 (7 / 10) ''parallel'' = Inr 5
   \<and> NTU_round_trip (\<lambda>f a b. NoSignChange) 5 (7 / 10) ''boiler'' = Inr 5
   \<and> NTU_round_trip (\<lambda>f a b. NoSignChange) 5 (7 / 10) ''crossflow, mixed Cmin'' = Inr 5
   \<and> NTU_round_trip (\<lambda>f a b. NoSignChange) 5 (7 / 10) ''crossflow, mixed Cmax'' = Inr 5
   \<and> contains ''S&T'' ''5S&T'' \<and> shells_of ''5S&T'' = Inr 5
   \<and> NTU_round_trip (\<lambda>f a b. NoSignChange) 5 (7 / 10) ''5S&T'' = Inr 5
   \<and> (\<exists>x. NTU_round_trip (\<lambda>f a b. Root (5 + 1 / 10 ^ 12)) 5 (7 / 10) ''crossflow'' = Inr x
          \<and> \<bar>x - 5\<bar> \<le> 5 / 10 ^ 5)"
proof -
  obtain eff where eff: "effectiveness_from_NTU 5 (7 / 10) ''crossflow'' = Inr eff"
    and root: "to_solve 5 (7 / 10) eff = 0"
    using crossflow_example_root by blast
  have contract: "\<exists>x r. (Root (5 + 1 / 10 ^ 12)) = Root x
      \<and> 1 / 10 ^ 7 \<le> r \<and> r \<le> 10 ^ 5 \<and> to_solve r (7 / 10) eff = 0
      \<and> \<bar>x - r\<bar> \<le> 2 / 10 ^ 12 + \<bar>r\<bar> / 10 ^ 15"
    using root by (intro exI[of _ "5 + 1 / 10 ^ 12"] exI[of _ 5]) simp
  have a: "\<exists>x. NTU_round_trip (\<lambda>f a b. Root (5 + 1 / 10 ^ 12)) 5 (7 / 10) ''crossflow'' = Inr x
          \<and> \<bar>x - 5\<bar> \<le> 5 / 10 ^ 5"
    using C1_round_trip [where Cr = "7 / 10" and NTU = 5
      and ridder = "\<lambda>f a b. Root (5 + 1 / 10 ^ 12)" and eff = eff] eff contract
    by simp
  have b: "NTU_round_trip (\<lambda>f a b. NoSignChange) 5 1 ''counterflow'' = Inr 5"
    using C1_round_trip [where Cr = 1 and NTU = 5 and ridder = "\<lambda>f a b. NoSignChange"]
    by simp
  show ?thesis
    using C1_round_trip [where Cr = "7 / 10" and NTU = 5 and ridder = "\<lambda>f a b. NoSignChange"
      and shells = 5 and subtype = "''5S&T''"] contains_5 shells_of_5 a b
    by simp
qed

lemma effectiveness_one_shell_unit_ratio:
  "\<exists>eff. effectiveness_from_NTU 5 1 ''S&T'' = Inr eff \<and> eff \<noteq> 1"
proof -
  define e where "e = exp (- 5 * sqrt 2 :: real)"
  have e: "0 < e" "e < 1" by (simp_all add: e_def)
  define den where "den = 1 + 1 + sqrt 2 * (1 + e) / (1 - e)"
  have "0 < sqrt 2 * (1 + e) / (1 - e)" using e by (intro divide_pos_pos mult_pos_pos) auto
  then have den: "2 < den" by (simp add: den_def)
  have "effectiveness_shell_tube 5 1 1 =
    (if (1::int) > 1 then
       (if 1 - 2 / den = 0 then Inl ZeroDivisionError
        else if ((1 - 2 / den * 1) / (1 - 2 / den)) ^ nat 1 - 1 = 0 then Inl ZeroDivisionError
        else Inr ((((1 - 2 / den * 1) / (1 - 2 / den)) ^ nat 1 - 1)
                   / (((1 - 2 / den * 1) / (1 - 2 / den)) ^ nat 1 - 1)))
     else Inr (2 / den))"
  proof (rule effectiveness_shell_tube_eval)
    show "1 - exp (- (5 / real_of_int 1) * sqrt (1 + 1\<^sup>2)) = 1 - e" by (simp add: e_def)
    show "1 + exp (- (5 / real_of_int 1) * sqrt (1 + 1\<^sup>2)) = 1 + e" by (simp add: e_def)
    show "1 - e \<noteq> 0" using e by simp
    show "1 + 1 + sqrt (1 + 1\<^sup>2) * (1 + e) / (1 - e) = den" by (simp add: den_def)
    show "den \<noteq> 0" using den by simp
  qed simp_all
  then have "effectiveness_shell_tube 5 1 1 = Inr (2 / den)" by simp
  moreover have "2 / den \<noteq> 1" using den by (simp add: field_simps)
  ultimately show ?thesis
    using effectiveness_from_NTU_shell_tube[OF _ contains_1 shells_of_1, of 1 5] by simp
qed

lemma NTU_one_shell_unit_ratio:
  assumes "eff \<noteq> 1"
  shows "NTU_from_effectiveness ridder eff 1 ''S&T'' = Inl ZeroDivisionError"
  using assms NTU_from_effectiveness_shell_tube[OF _ contains_1 shells_of_1, of 1 ridder eff]
  by (simp add: NTU_shell_tube_def shell_root_def)

text \<open>
  The claim as stated fails at \<open>Cr = 0\<close> for the two mixed crossflow tags, where the
  forward function divides by \<open>Cr\<close>, and at \<open>Cr = 1\<close> for one shell, where the inverse
  divides by \<open>F - Cr = 0\<close>.
\<close>

theorem C1_round_trip_counterexample:
  "NTU_round_trip (\<lambda>f a b. NoSignChange) 1 0 ''crossflow, mixed Cmin'' = Inl ZeroDivisionError
   \<and> NTU_round_trip (\<lambda>f a b. NoSignChange) 1 0 ''crossflow, mixed Cmax'' = Inl ZeroDivisionError
   \<and> NTU_round_trip (\<lambda>f a b. NoSignChange) 5 1 ''S&T'' = Inl ZeroDivisionError"
proof -
  have "NTU_round_trip (\<lambda>f a b. NoSignChange) 5 1 ''S&T'' = Inl ZeroDivisionError"
    using effectiveness_one_shell_unit_ratio NTU_one_shell_unit_ratio
    by (auto simp: NTU_round_trip_def)
  then show ?thesis
    by (simp add: NTU_round_trip_def effectiveness_from_NTU_def)
qed

end
